theory Spec2Isabelle
  imports Main "HOL-Library.Word"
begin

section \<open>Go runtime notions used by the sources\<close>

text \<open>
  A Go call either returns (a value, or an \<open>error\<close> whose text is built with
  \<open>fmt.Errorf\<close>) or it panics. Both ways of failing are values here: \<open>Err msg\<close> is a
  returned error with its message, \<open>Panic msg\<close> is a run-time panic that unwinds the call.
\<close>

datatype failure = Err string | Panic string

type_synonym bytes = string

text \<open>\<open>strings.HasPrefix\<close> and \<open>strings.TrimPrefix\<close>.\<close>

definition HasPrefix :: "string \<Rightarrow> string \<Rightarrow> bool" where
  "HasPrefix s p = (take (length p) s = p)"

definition TrimPrefix :: "string \<Rightarrow> string \<Rightarrow> string" where
  "TrimPrefix s p = (if HasPrefix s p then drop (length p) s else s)"

text \<open>
  \<open>strings.Split(s, sep)\<close> for a one-character separator: the pieces between the
  separators, so the result has one more element than \<open>s\<close> has separators and is never empty.
\<close>

fun Split :: "string \<Rightarrow> char \<Rightarrow> string list" where
  "Split [] c = [[]]"
| "Split (x # xs) c =
     (if x = c then [] # Split xs c
      else (case Split xs c of [] \<Rightarrow> [[x]] | w # ws \<Rightarrow> (x # w) # ws))"

text \<open>\<open>strings.Join(parts, sep)\<close> for a one-character separator.\<close>

fun Join :: "string list \<Rightarrow> char \<Rightarrow> string" where
  "Join [] c = []"
| "Join [w] c = w"
| "Join (w # ws) c = w @ c # Join ws c"

text \<open>\<open>fmt.Sprintf("%x", bs)\<close> on a byte slice: two lower-case hex digits per byte.\<close>

definition hexdigit :: "nat \<Rightarrow> char" where
  "hexdigit n = (''0123456789abcdef'') ! (n mod 16)"

fun hex :: "8 word list \<Rightarrow> string" where
  "hex [] = []"
| "hex (b # bs) = hexdigit (unat b div 16) # hexdigit (unat b mod 16) # hex bs"

text \<open>\<open>%d\<close> of \<open>fmt\<close> for a number that is not negative.\<close>

fun digits :: "nat \<Rightarrow> nat \<Rightarrow> string" where
  "digits 0 n = []"
| "digits (Suc k) n =
     (if n < 10 then [hexdigit n] else digits k (n div 10) @ [hexdigit (n mod 10)])"

definition decimal :: "nat \<Rightarrow> string" where
  "decimal n = digits (Suc n) n"

text \<open>
  Indexing a slice: Go panics when the index is not below the length, where HOL's \<open>!\<close>
  would return an unspecified value.
\<close>

definition index :: "'a list \<Rightarrow> nat \<Rightarrow> failure + 'a" where
  "index xs i =
     (if i < length xs then Inr (xs ! i)
      else Inl (Panic (''runtime error: index out of range ['' @ decimal i
                       @ ''] with length '' @ decimal (length xs))))"

subsection \<open>Instants and durations\<close>

text \<open>
  A \<open>time.Time\<close> read from the store or from the wall clock is an instant in nanoseconds;
  a \<open>time.Duration\<close> is a 64-bit count of nanoseconds. \<open>t.Sub(u)\<close> is the difference,
  saturated at the least and the greatest duration when it does not fit.
\<close>

definition minDuration :: int where
  "minDuration = - (2 ^ 63)"

definition maxDuration :: int where
  "maxDuration = 2 ^ 63 - 1"

definition Sub :: "int \<Rightarrow> int \<Rightarrow> int" where
  "Sub t u =
     (if t - u < minDuration then minDuration
      else if maxDuration < t - u then maxDuration
      else t - u)"

section \<open>The resolver's data (did\_resolver.go)\<close>

record DIDCacheEntry =
  DIDURI :: string
  PublicKey :: bytes
  DIDURL :: string
  Timestamp :: int
  LastRefreshAttempt :: int
  LastRefreshError :: string
  LastUsed :: int

text \<open>
  The configuration type \<open>DIDCache\<close> is declared outside the resolver's file; these are
  the fields the resolver reads.
\<close>

record DIDCache =
  Enabled :: bool
  MaxAge :: int
  RefreshInterval :: int
  FailureBackoff :: int
  PurgeUnused :: int

subsection \<open>The refresh decision\<close>

definition shouldRefresh :: "DIDCache \<Rightarrow> DIDCacheEntry \<Rightarrow> int \<Rightarrow> bool" where
  "shouldRefresh config cached now =
     (if Sub now (Timestamp cached) > MaxAge config then True
      else if Sub now (Timestamp cached) < RefreshInterval config then False
      else if Sub now (LastRefreshAttempt cached) < FailureBackoff config then False
      else True)"

text \<open>
  The refresh policy in the specification's words, on the two ages
  \<open>a = now - resolved_at\<close> and \<open>b = now - last_refresh_attempt\<close>.
\<close>

definition refresh_policy :: "int \<Rightarrow> int \<Rightarrow> int \<Rightarrow> int \<Rightarrow> int \<Rightarrow> bool" where
  "refresh_policy a b maxAge refreshInterval failureBackoff =
     (if a > maxAge then True
      else if a < refreshInterval then False
      else if b < failureBackoff then False
      else True)"

subsection \<open>Keys, documents and the libraries the resolver calls\<close>

text \<open>
  A \<open>crypto.PublicKey\<close> as the standard library's parsers and generators return it: an
  ECDSA key on a named curve with its affine coordinates, an RSA key with modulus and
  exponent, or a key of another Go type (its type name and encoding).
\<close>

datatype curve = P256 | P384

datatype pubkey =
    ECDSAPublicKey curve nat nat
  | RSAPublicKey nat nat
  | OtherPublicKey string bytes

text \<open>A decoded JSON value (\<open>interface{}\<close> after \<open>json.Unmarshal\<close>).\<close>

datatype json =
    JString string
  | JNumber int
  | JBool bool
  | JNull
  | JArray "json list"
  | JObject "(string \<times> json) list"

text \<open>
  The fields of \<open>did.Document\<close> and of its verification methods that the resolver reads.
  A \<open>nil\<close> JWK map is \<open>None\<close>. The document's \<open>VerificationMethod\<close> is a slice of
  pointers, \<open>[]*VerificationMethod\<close>; an element that is \<open>nil\<close> (a \<open>null\<close> in the
  document's array) is \<open>None\<close>.
\<close>

record VerificationMethod =
  PublicKeyJwk :: "(string \<rightharpoonup> json) option"
  PublicKeyMultibase :: string
  PublicKeyBase58 :: string

record Document =
  ID :: string
  VerificationMethods :: "VerificationMethod option list"

text \<open>What \<open>httpClient.Do\<close> and the reading of the body come to, for one request.\<close>

datatype http_outcome =
    DoFailed string
  | Response nat "string + string"

text \<open>
  The world outside the repository, for one call: the standard library and the
  \<open>go-did\<close> parser as functions, the outcome of each piece of I/O, the key material the
  random generator produces when asked, and the two readings of the clock
  (\<open>time.Now()\<close> in \<open>resolveDIDWebCached\<close> and in \<open>refreshFromNetwork\<close>).
  \<open>ReadExampleJSON name\<close> is \<open>os.ReadFile(filepath.Join("examples", name))\<close> followed by
  \<open>json.Unmarshal\<close> into a map; \<open>None\<close> when either fails.
\<close>

record world =
  GenerateECKey :: "curve \<Rightarrow> string + nat \<times> nat"
  GenerateRSAKey :: "nat \<Rightarrow> string + nat \<times> nat"
  MarshalPKIXPublicKey :: "pubkey \<Rightarrow> string + bytes"
  ParsePKIXPublicKey :: "bytes \<Rightarrow> string + pubkey"
  ParseCertificatePublicKey :: "bytes \<Rightarrow> string + pubkey"
  ParsePKCS1PublicKey :: "bytes \<Rightarrow> string + pubkey"
  pem_Decode :: "bytes \<Rightarrow> (string \<times> bytes) option"
  NewRequest :: "string \<Rightarrow> string option"
  Do :: "string \<Rightarrow> http_outcome"
  ParseDocument :: "string \<Rightarrow> string + Document"
  ReadExampleJSON :: "string \<Rightarrow> (string \<rightharpoonup> json) option"
  now_resolve :: int
  now_refresh :: int

subsection \<open>The cache store\<close>

text \<open>
  The resolver's \<open>sessionState\<close> is \<open>nil\<close>, or a value without the database methods the
  resolver asserts for, or a value with them.
\<close>

datatype session_db = NoSessionState | NoDatabaseMethods | Database

datatype cache_op =
    OpGet string
  | OpUpsert DIDCacheEntry
  | OpTouchLastUsed string int
  | OpRecordError string int string

text \<open>The table \<open>did_cache\<close>, keyed by \<open>did_uri\<close>, and the operations performed on it so far.\<close>

record cache =
  rows :: "string \<rightharpoonup> DIDCacheEntry"
  ops :: "cache_op list"

text \<open>
  The persistent store behind \<open>sessionState\<close> is not among the sources (the resolver
  reaches it through the methods \<open>query\<close>, \<open>insert\<close> and \<open>insertOrIgnore\<close>). The four
  operations the resolver needs are taken from the Cache Store contract of the
  specification; each is entered in the list of operations.
\<close>

text \<open>
  Modelled from the spec: the store's \<open>get(uri)\<close>, absent from the sources; it returns the
  entry of the URI or its absence.
\<close>

definition store_get :: "string \<Rightarrow> cache \<Rightarrow> DIDCacheEntry option \<times> cache" where
  "store_get uri c = (rows c uri, c\<lparr>ops := ops c @ [OpGet uri]\<rparr>)"

text \<open>
  Modelled from the spec: the store's \<open>upsert(entry)\<close>, absent from the sources; it writes
  the entry under its URI, keeping one entry per URI.
\<close>

definition store_upsert :: "DIDCacheEntry \<Rightarrow> cache \<Rightarrow> cache" where
  "store_upsert e c =
     c\<lparr>rows := (rows c)(DIDURI e \<mapsto> e), ops := ops c @ [OpUpsert e]\<rparr>"

text \<open>
  Modelled from the spec: the store's \<open>touch_last_used(uri, time)\<close>, absent from the
  sources; it sets \<open>last_used\<close> in the row of the URI, when there is one.
\<close>

definition store_touch_last_used :: "string \<Rightarrow> int \<Rightarrow> cache \<Rightarrow> cache" where
  "store_touch_last_used uri t c =
     c\<lparr>rows := (case rows c uri of
                  None \<Rightarrow> rows c
                | Some e \<Rightarrow> (rows c)(uri \<mapsto> e\<lparr>LastUsed := t\<rparr>)),
       ops := ops c @ [OpTouchLastUsed uri t]\<rparr>"

text \<open>
  Modelled from the spec: the store's \<open>record_error(uri, time, message)\<close>, absent from the
  sources; it sets \<open>last_refresh_attempt\<close> and \<open>last_refresh_error\<close> in the row of the URI,
  when there is one.
\<close>

definition store_record_error :: "string \<Rightarrow> int \<Rightarrow> string \<Rightarrow> cache \<Rightarrow> cache" where
  "store_record_error uri t msg c =
     c\<lparr>rows := (case rows c uri of
                  None \<Rightarrow> rows c
                | Some e \<Rightarrow>
                    (rows c)(uri \<mapsto> e\<lparr>LastRefreshAttempt := t, LastRefreshError := msg\<rparr>)),
       ops := ops c @ [OpRecordError uri t msg]\<rparr>"

text \<open>
  The resolver's four database functions. Each fails without touching the store when
  there is no session state or it lacks the methods. The text of the store's own error
  for an absent row is never shown to a caller.
\<close>

definition getFromCache ::
  "session_db \<Rightarrow> string \<Rightarrow> cache \<Rightarrow> (failure + DIDCacheEntry) \<times> cache" where
  "getFromCache sessionState didURI c =
     (case sessionState of
        NoSessionState \<Rightarrow> (Inl (Err ''no session state available''), c)
      | NoDatabaseMethods \<Rightarrow>
          (Inl (Err ''session state does not support database queries''), c)
      | Database \<Rightarrow>
          (case store_get didURI c of
             (None, c') \<Rightarrow> (Inl (Err ''no rows in result set''), c')
           | (Some entry, c') \<Rightarrow> (Inr entry, c')))"

definition updateCache ::
  "session_db \<Rightarrow> DIDCacheEntry \<Rightarrow> cache \<Rightarrow> failure option \<times> cache" where
  "updateCache sessionState entry c =
     (case sessionState of
        NoSessionState \<Rightarrow> (Some (Err ''no session state available''), c)
      | NoDatabaseMethods \<Rightarrow>
          (Some (Err ''session state does not support database operations''), c)
      | Database \<Rightarrow> (None, store_upsert entry c))"

definition updateLastUsed ::
  "session_db \<Rightarrow> string \<Rightarrow> int \<Rightarrow> cache \<Rightarrow> failure option \<times> cache" where
  "updateLastUsed sessionState didURI lastUsed c =
     (case sessionState of
        NoSessionState \<Rightarrow> (Some (Err ''no session state available''), c)
      | NoDatabaseMethods \<Rightarrow>
          (Some (Err ''session state does not support database operations''), c)
      | Database \<Rightarrow> (None, store_touch_last_used didURI lastUsed c))"

definition updateCacheError ::
  "session_db \<Rightarrow> string \<Rightarrow> int \<Rightarrow> string \<Rightarrow> cache \<Rightarrow> failure option \<times> cache" where
  "updateCacheError sessionState didURI timestamp errorMsg c =
     (case sessionState of
        NoSessionState \<Rightarrow> (Some (Err ''no session state available''), c)
      | NoDatabaseMethods \<Rightarrow>
          (Some (Err ''session state does not support database operations''), c)
      | Database \<Rightarrow> (None, store_record_error didURI timestamp errorMsg c))"

subsection \<open>Key extraction from a document\<close>

text \<open>\<open>jwkData[k].(string)\<close>: the value under the key when it is a string.\<close>

definition string_field :: "(string \<rightharpoonup> json) \<Rightarrow> string \<Rightarrow> string option" where
  "string_field m k = (case m k of Some (JString s) \<Rightarrow> Some s | _ \<Rightarrow> None)"

text \<open>
  \<open>parseECJWK\<close> and \<open>parseRSAJWK\<close> as they are written: the curve name selects the
  curve, and the key returned is the public half of the key pair that
  \<open>ecdsa.GenerateKey(curve, rand.Reader)\<close>, respectively
  \<open>rsa.GenerateKey(rand.Reader, 2048)\<close>, generates. No other entry of the JWK is read.
\<close>

definition parseECJWK :: "world \<Rightarrow> (string \<rightharpoonup> json) \<Rightarrow> string + pubkey" where
  "parseECJWK w jwkData =
     (case string_field jwkData ''crv'' of
        None \<Rightarrow> Inl ''missing or invalid crv in EC JWK''
      | Some crv \<Rightarrow>
          (if crv = ''P-256'' then
             (case GenerateECKey w P256 of
                Inl e \<Rightarrow> Inl (''failed to generate test EC key: '' @ e)
              | Inr (x, y) \<Rightarrow> Inr (ECDSAPublicKey P256 x y))
           else if crv = ''P-384'' then
             (case GenerateECKey w P384 of
                Inl e \<Rightarrow> Inl (''failed to generate test EC key: '' @ e)
              | Inr (x, y) \<Rightarrow> Inr (ECDSAPublicKey P384 x y))
           else Inl (''unsupported EC curve: '' @ crv)))"

definition parseRSAJWK :: "world \<Rightarrow> (string \<rightharpoonup> json) \<Rightarrow> string + pubkey" where
  "parseRSAJWK w jwkData =
     (case GenerateRSAKey w 2048 of
        Inl e \<Rightarrow> Inl (''failed to generate test RSA key: '' @ e)
      | Inr (n, e) \<Rightarrow> Inr (RSAPublicKey n e))"

definition parseJWK :: "world \<Rightarrow> (string \<rightharpoonup> json) \<Rightarrow> string + pubkey" where
  "parseJWK w jwkData =
     (case string_field jwkData ''kty'' of
        None \<Rightarrow> Inl ''missing or invalid kty in JWK''
      | Some kty \<Rightarrow>
          (if kty = ''EC'' then parseECJWK w jwkData
           else if kty = ''RSA'' then parseRSAJWK w jwkData
           else Inl (''unsupported JWK key type: '' @ kty)))"

definition parseMultibase :: "string \<Rightarrow> string + pubkey" where
  "parseMultibase multibase = Inl ''multibase parsing not yet implemented''"

definition parseBase58 :: "string \<Rightarrow> string + pubkey" where
  "parseBase58 base58 = Inl ''base58 parsing not yet implemented''"

text \<open>
  \<open>extractPublicKey\<close> takes the first element of the slice and reads its fields without
  testing the pointer: a \<open>nil\<close> first element panics at \<open>vm.PublicKeyJwk\<close>.
\<close>

definition extractPublicKey :: "world \<Rightarrow> Document \<Rightarrow> failure + pubkey" where
  "extractPublicKey w doc =
     (case VerificationMethods doc of
        [] \<Rightarrow> Inl (Err ''no verification methods found in DID document'')
      | None # _ \<Rightarrow>
          Inl (Panic ''runtime error: invalid memory address or nil pointer dereference'')
      | Some vm # _ \<Rightarrow>
          (case PublicKeyJwk vm of
             Some jwk \<Rightarrow>
               (case parseJWK w jwk of Inl e \<Rightarrow> Inl (Err e) | Inr key \<Rightarrow> Inr key)
           | None \<Rightarrow>
               (if PublicKeyMultibase vm \<noteq> [] then
                  (case parseMultibase (PublicKeyMultibase vm) of
                     Inl e \<Rightarrow> Inl (Err e) | Inr key \<Rightarrow> Inr key)
                else if PublicKeyBase58 vm \<noteq> [] then
                  (case parseBase58 (PublicKeyBase58 vm) of
                     Inl e \<Rightarrow> Inl (Err e) | Inr key \<Rightarrow> Inr key)
                else Inl (Err
                  ''no supported public key format found in verification method''))))"

definition extractDIDURL :: "world \<Rightarrow> Document \<Rightarrow> string" where
  "extractDIDURL w doc =
     (if \<not> HasPrefix (ID doc) ''did:file:'' then []
      else if TrimPrefix (ID doc) ''did:file:'' = [] then []
      else
        (case ReadExampleJSON w (TrimPrefix (ID doc) ''did:file:'') of
           None \<Rightarrow> []
         | Some docMap \<Rightarrow>
             (case docMap ''fido-device-onboarding'' of
                Some (JObject fdoExt) \<Rightarrow>
                  (case map_of fdoExt ''voucherRecipientURL'' of
                     Some (JString voucherURL) \<Rightarrow> voucherURL
                   | _ \<Rightarrow> [])
              | _ \<Rightarrow> [])))"

definition deserializePublicKey :: "world \<Rightarrow> bytes \<Rightarrow> string + pubkey" where
  "deserializePublicKey w keyBytes = ParsePKIXPublicKey w keyBytes"

definition extractPublicKeyFromDIDKey :: "string \<Rightarrow> string + pubkey" where
  "extractPublicKeyFromDIDKey didKey =
     Inl ''did:key resolution not yet implemented - need proper multicodec decoding''"

subsection \<open>Fetching and resolving\<close>

text \<open>
  Every exit of \<open>fetchDIDWeb\<close> that returns an error is the same pair of statements:
  \<open>updateCacheError\<close> with a message, whose own result is dropped, and the return of an
  error with that message. \<open>fetch_document\<close> is the body of \<open>fetchDIDWeb\<close> up to the
  serialization of the key, without those pairs: it yields \<open>Err\<close> with the message of the
  exit taken, or the panic of \<open>extractPublicKey\<close>, which unwinds \<open>fetchDIDWeb\<close> before
  any of its statements that follow, or the key, the delivery URL and the serialized key.
  \<open>fetchDIDWeb\<close> then records and returns the message, or panics with the store as it
  is, or writes the new entry and returns the key and the URL; a failure of that write is
  printed and not returned.
\<close>

definition fetch_document :: "world \<Rightarrow> string \<Rightarrow> failure + pubkey \<times> string \<times> bytes" where
  "fetch_document w didURI =
     (let parts = Split (TrimPrefix didURI ''did:web:'') CHR '':'' in
      if length parts = 0 then Inl (Err ''invalid did:web format'')
      else
        let domain = parts ! 0;
            path = (if length parts > 1 then ''/'' @ Join (tl parts) CHR '':'' else []);
            url = ''https://'' @ domain @ ''/.well-known/did.json'' @ path
        in
        (case NewRequest w url of
           Some e \<Rightarrow> Inl (Err (''failed to create request: '' @ e))
         | None \<Rightarrow>
        (case Do w url of
           DoFailed e \<Rightarrow> Inl (Err (''failed to fetch DID document: '' @ e))
         | Response status read \<Rightarrow>
             if status \<noteq> 200 then
               Inl (Err (''HTTP '' @ decimal status @ '' when fetching DID document''))
             else
        (case read of
           Inl e \<Rightarrow> Inl (Err (''failed to read response body: '' @ e))
         | Inr body \<Rightarrow>
        (case ParseDocument w body of
           Inl e \<Rightarrow> Inl (Err (''failed to parse DID document: '' @ e))
         | Inr doc \<Rightarrow>
        (case extractPublicKey w doc of
           Inl (Panic p) \<Rightarrow> Inl (Panic p)
         | Inl (Err e) \<Rightarrow> Inl (Err (''failed to extract public key: '' @ e))
         | Inr publicKey \<Rightarrow>
        (case MarshalPKIXPublicKey w publicKey of
           Inl e \<Rightarrow> Inl (Err (''failed to serialize public key: '' @ e))
         | Inr publicKeyBytes \<Rightarrow>
             Inr (publicKey, extractDIDURL w doc, publicKeyBytes))))))))"

definition fetch_failed ::
  "session_db \<Rightarrow> string \<Rightarrow> int \<Rightarrow> string \<Rightarrow> cache
    \<Rightarrow> (failure + pubkey \<times> string) \<times> cache" where
  "fetch_failed sessionState didURI now msg c =
     (Inl (Err msg), snd (updateCacheError sessionState didURI now msg c))"

definition fetchDIDWeb ::
  "world \<Rightarrow> session_db \<Rightarrow> string \<Rightarrow> int \<Rightarrow> cache
    \<Rightarrow> (failure + pubkey \<times> string) \<times> cache" where
  "fetchDIDWeb w sessionState didURI now c =
     (case fetch_document w didURI of
        Inl (Err msg) \<Rightarrow> fetch_failed sessionState didURI now msg c
      | Inl (Panic p) \<Rightarrow> (Inl (Panic p), c)
      | Inr (publicKey, didURL, publicKeyBytes) \<Rightarrow>
          let entry = \<lparr>DIDURI = didURI, PublicKey = publicKeyBytes, DIDURL = didURL,
                       Timestamp = now, LastRefreshAttempt = now,
                       LastRefreshError = [], LastUsed = now\<rparr>
          in (Inr (publicKey, didURL), snd (updateCache sessionState entry c)))"

definition refreshFromNetwork ::
  "world \<Rightarrow> session_db \<Rightarrow> string \<Rightarrow> cache \<Rightarrow> (failure + pubkey \<times> string) \<times> cache" where
  "refreshFromNetwork w sessionState didURI c =
     (let now = now_refresh w in
      if HasPrefix didURI ''did:web:'' then fetchDIDWeb w sessionState didURI now c
      else if HasPrefix didURI ''did:key:'' then
        (case extractPublicKeyFromDIDKey didURI of
           Inl e \<Rightarrow>
             fetch_failed sessionState didURI now (''failed to extract public key: '' @ e) c
         | Inr publicKey \<Rightarrow>
             (case MarshalPKIXPublicKey w publicKey of
                Inl e \<Rightarrow> (Inl (Err (''failed to serialize public key: '' @ e)), c)
              | Inr publicKeyBytes \<Rightarrow>
                  let entry = \<lparr>DIDURI = didURI, PublicKey = publicKeyBytes, DIDURL = [],
                               Timestamp = now, LastRefreshAttempt = now,
                               LastRefreshError = [], LastUsed = now\<rparr>
                  in (Inr (publicKey, []), snd (updateCache sessionState entry c))))
      else
        (case index (Split didURI CHR '':'') 1 of
           Inl f \<Rightarrow> (Inl f, c)
         | Inr method \<Rightarrow> (Inl (Err (''unsupported DID method: '' @ method)), c)))"

definition resolveDIDKeyDirect ::
  "string \<Rightarrow> cache \<Rightarrow> (failure + pubkey \<times> string) \<times> cache" where
  "resolveDIDKeyDirect didURI c =
     (case extractPublicKeyFromDIDKey didURI of
        Inl e \<Rightarrow> (Inl (Err (''failed to extract public key from did:key: '' @ e)), c)
      | Inr publicKey \<Rightarrow> (Inr (publicKey, []), c))"

text \<open>
  The end of the cache-hit branch of \<open>resolveDIDWebCached\<close> (``Return cached key''):
  the stored bytes are deserialized and returned with the stored URL.
\<close>

definition return_cached ::
  "world \<Rightarrow> DIDCacheEntry \<Rightarrow> failure + pubkey \<times> string" where
  "return_cached w cached =
     (case deserializePublicKey w (PublicKey cached) of
        Inl e \<Rightarrow> Inl (Err (''failed to deserialize cached public key: '' @ e))
      | Inr publicKey \<Rightarrow> Inr (publicKey, DIDURL cached))"

definition resolveDIDWebCached ::
  "world \<Rightarrow> DIDCache \<Rightarrow> session_db \<Rightarrow> string \<Rightarrow> cache
    \<Rightarrow> (failure + pubkey \<times> string) \<times> cache" where
  "resolveDIDWebCached w config sessionState didURI c =
     (let now = now_resolve w in
      case getFromCache sessionState didURI c of
        (Inr cached, c1) \<Rightarrow>
          let c2 = snd (updateLastUsed sessionState didURI now c1) in
          if shouldRefresh config cached now then
            (case refreshFromNetwork w sessionState didURI c2 of
               (Inr refreshed, c3) \<Rightarrow> (Inr refreshed, c3)
             | (Inl (Panic p), c3) \<Rightarrow> (Inl (Panic p), c3)
             | (Inl (Err refreshErr), c3) \<Rightarrow> (return_cached w cached, c3))
          else (return_cached w cached, c2)
      | (Inl err, c1) \<Rightarrow> refreshFromNetwork w sessionState didURI c1)"

definition ResolveDIDKey ::
  "world \<Rightarrow> DIDCache \<Rightarrow> session_db \<Rightarrow> string \<Rightarrow> cache
    \<Rightarrow> (failure + pubkey \<times> string) \<times> cache" where
  "ResolveDIDKey w config sessionState didURI c =
     (if \<not> Enabled config then (Inl (Err ''DID cache is disabled''), c)
      else if HasPrefix didURI ''did:key:'' then resolveDIDKeyDirect didURI c
      else if HasPrefix didURI ''did:web:'' then
        resolveDIDWebCached w config sessionState didURI c
      else
        (case index (Split didURI CHR '':'') 1 of
           Inl f \<Rightarrow> (Inl f, c)
         | Inr method \<Rightarrow> (Inl (Err (''unsupported DID method: '' @ method)), c)))"

section \<open>The owner key service (owner\_key\_service.go)\<close>

record OwnerKeyResponse =
  OwnerKeyPEM :: string
  OwnerDID :: string
  Error :: string

record OwnerKeyResult =
  ResultPublicKey :: pubkey
  ResultDIDURL :: string

text \<open>
  What \<open>executor.Execute\<close> followed by \<open>json.Unmarshal\<close> of its output comes to: the
  command fails, its output is not the JSON of a response, or it is.
\<close>

datatype authority_outcome =
    ExecuteFailed string
  | UnmarshalFailed string
  | Reply OwnerKeyResponse

definition parsePKIXPublicKey :: "world \<Rightarrow> bytes \<Rightarrow> string + pubkey" where
  "parsePKIXPublicKey w data =
     (case ParsePKIXPublicKey w data of
        Inl e \<Rightarrow> Inl (''failed to parse PKIX public key: '' @ e)
      | Inr pubKey \<Rightarrow> Inr pubKey)"

definition parseCertificatePublicKey :: "world \<Rightarrow> bytes \<Rightarrow> string + pubkey" where
  "parseCertificatePublicKey w data =
     (case ParseCertificatePublicKey w data of
        Inl e \<Rightarrow> Inl (''failed to parse certificate: '' @ e)
      | Inr pubKey \<Rightarrow> Inr pubKey)"

definition parsePublicKeyFromPEM :: "world \<Rightarrow> bytes \<Rightarrow> string + pubkey" where
  "parsePublicKeyFromPEM w data =
     (case pem_Decode w data of
        None \<Rightarrow> Inl ''failed to decode PEM block''
      | Some (blockType, blockBytes) \<Rightarrow>
          (if blockType = ''PUBLIC KEY'' then parsePKIXPublicKey w blockBytes
           else if blockType = ''CERTIFICATE'' then parseCertificatePublicKey w blockBytes
           else Inl (''unsupported PEM block type: '' @ blockType)))"

text \<open>
  \<open>NewDIDResolver(nil, &DIDCache{Enabled: false})\<close>: no session state, and a
  configuration whose other fields are Go's zero values.
\<close>

definition handleDIDResponse :: "world \<Rightarrow> string \<Rightarrow> failure + OwnerKeyResult" where
  "handleDIDResponse w didURI =
     (let config = \<lparr>Enabled = False, MaxAge = 0, RefreshInterval = 0,
                    FailureBackoff = 0, PurgeUnused = 0\<rparr>
      in case fst (ResolveDIDKey w config NoSessionState didURI
                     \<lparr>rows = Map.empty, ops = []\<rparr>) of
           Inl (Panic p) \<Rightarrow> Inl (Panic p)
         | Inl (Err e) \<Rightarrow> Inl (Err (''failed to resolve DID '' @ didURI @ '': '' @ e))
         | Inr (publicKey, didURL) \<Rightarrow>
             Inr \<lparr>ResultPublicKey = publicKey, ResultDIDURL = didURL\<rparr>)"

definition GetOwnerKey ::
  "((string \<times> string) list \<Rightarrow> authority_outcome) \<Rightarrow> world \<Rightarrow> string \<Rightarrow> string
    \<Rightarrow> failure + OwnerKeyResult" where
  "GetOwnerKey execute w serial model =
     (let variables = [(''serialno'', serial), (''model'', model), (''guid'', [])] in
      case execute variables of
        ExecuteFailed e \<Rightarrow> Inl (Err (''failed to execute owner key command: '' @ e))
      | UnmarshalFailed e \<Rightarrow> Inl (Err (''failed to parse owner key response: '' @ e))
      | Reply response \<Rightarrow>
          if Error response \<noteq> [] then
            Inl (Err (''owner key service error: '' @ Error response))
          else if OwnerDID response \<noteq> [] then handleDIDResponse w (OwnerDID response)
          else if OwnerKeyPEM response = [] then Inl (Err ''no owner key returned'')
          else
            (case parsePublicKeyFromPEM w (OwnerKeyPEM response) of
               Inl e \<Rightarrow> Inl (Err (''failed to parse PEM key: '' @ e))
             | Inr publicKey \<Rightarrow>
                 Inr \<lparr>ResultPublicKey = publicKey, ResultDIDURL = []\<rparr>))"

section \<open>The voucher callback (voucher\_callback.go)\<close>

text \<open>
  The voucher belongs to the onboarding library; the callback reads its GUID and its
  device-info string and otherwise hands it on whole. The caller passes a pointer to it,
  which is not \<open>nil\<close>; the callback's writes through the pointer are the value of
  \<open>voucher\<close> in the result below.
\<close>

record Voucher =
  Header_GUID :: "8 word list"
  Header_DeviceInfo :: string
  Contents :: bytes

record DeviceMfgInfo =
  SerialNumber :: string
  DeviceInfo :: string

text \<open>
  The \<open>sessionState\<close> handed to the callback: \<open>nil\<close>, a value without a
  \<open>DeviceSelfInfo\<close> method, or a value whose \<open>DeviceSelfInfo\<close> returns an error or a
  pointer, possibly \<open>nil\<close>, to the device's own information.
\<close>

datatype session =
    SessionNil
  | SessionOpaque
  | SessionDeviceSelfInfo "string + DeviceMfgInfo option"

text \<open>
  A value of the interface type \<open>crypto.PublicKey\<close> (which is \<open>any\<close>) as the callback
  holds it in \<open>nextOwner\<close>: a key, a certificate chain, or the pointer to an
  \<open>OwnerKeyResult\<close>. The \<open>nil\<close> interface is \<open>None\<close>.
\<close>

datatype owner_value =
    KeyValue pubkey
  | CertChainValue "bytes list"
  | ResultValue OwnerKeyResult

text \<open>
  The fields of the configuration that the callback reads (the type \<open>VoucherConfig\<close> is
  declared outside these sources).
\<close>

record VoucherConfig =
  OwnerSignover_Mode :: string
  OwnerSignover_StaticPublicKey :: string
  OwnerSignover_ExternalCommand :: string
  VoucherSigning_Mode :: string
  VoucherUpload_Enabled :: bool
  SaveToDisk_Directory :: string
  PersistToDB :: bool

text \<open>
  The collaborators of the callback, none of them among the sources: the command
  executor behind the owner key service, the optional source of extra data
  (\<open>None\<close> is a \<open>nil\<close> service), the signing service, the library's \<open>fdo.ExtendVoucher\<close>,
  the upload service and the disk service. Each is a function from its arguments to its
  result; an error is its message. None of them is taken to write through the voucher
  pointer it is given: the writes to the caller's voucher are the callback's own.
\<close>

record services =
  Execute :: "(string \<times> string) list \<Rightarrow> authority_outcome"
  GetOVEExtraData :: "(string \<Rightarrow> string \<Rightarrow> string + (int \<times> bytes) list) option"
  SignVoucher ::
    "Voucher \<Rightarrow> owner_value option \<Rightarrow> string \<Rightarrow> string \<Rightarrow> (int \<times> bytes) list
      \<Rightarrow> string + Voucher"
  ExtendVoucher :: "Voucher \<Rightarrow> owner_value \<Rightarrow> string + Voucher"
  UploadVoucher :: "string \<Rightarrow> string \<Rightarrow> string \<Rightarrow> Voucher \<Rightarrow> string option"
  SaveVoucherToDisk :: "Voucher \<Rightarrow> string \<Rightarrow> string option"

text \<open>The calls the callback makes on its collaborators, with their arguments.\<close>

datatype call =
    CallGetOwnerKey string string
  | CallGetOVEExtraData string string
  | CallSetSessionState session
  | CallSignVoucher Voucher "owner_value option" string string "(int \<times> bytes) list"
  | CallExtendVoucher Voucher owner_value
  | CallUploadVoucher string string string Voucher
  | CallSaveVoucherToDisk Voucher string

text \<open>
  One run of the callback: what it returns (\<open>Inr\<close> the boolean, with a \<open>nil\<close> error),
  the voucher behind the caller's pointer afterwards, the calls made, and the warnings
  printed for the failures that do not end the run.
\<close>

record run =
  outcome :: "failure + bool"
  voucher :: Voucher
  calls :: "call list"
  warnings :: "string list"

definition parseStaticPublicKey :: "world \<Rightarrow> string \<Rightarrow> string + pubkey" where
  "parseStaticPublicKey w pemKey =
     (case pem_Decode w pemKey of
        None \<Rightarrow> Inl ''failed to decode PEM block''
      | Some (blockType, blockBytes) \<Rightarrow>
          (case ParsePKIXPublicKey w blockBytes of
             Inr key \<Rightarrow> Inr key
           | Inl _ \<Rightarrow>
          (case ParseCertificatePublicKey w blockBytes of
             Inr key \<Rightarrow> Inr key
           | Inl _ \<Rightarrow>
          (case ParsePKCS1PublicKey w blockBytes of
             Inr key \<Rightarrow> Inr key
           | Inl _ \<Rightarrow> Inl ''unsupported public key format''))))"

definition getDeviceInfo :: "session \<Rightarrow> Voucher \<Rightarrow> string \<times> string \<times> string" where
  "getDeviceInfo sessionState ov =
     (let (serial, model) =
            (case sessionState of
               SessionDeviceSelfInfo (Inr (Some info)) \<Rightarrow> (SerialNumber info, DeviceInfo info)
             | _ \<Rightarrow> ([], []));
          serial = (if serial = [] then hex (Header_GUID ov) else serial);
          model = (if model = [] then Header_DeviceInfo ov else model)
      in (serial, model, hex (Header_GUID ov)))"

text \<open>
  Lines 55 to 88 of \<open>BeforeVoucherPersist\<close>: the serial number, the model and the GUID
  string. The second probe of the session state reads the fields of the pointer
  \<open>DeviceSelfInfo\<close> returned whenever the error is \<open>nil\<close>, so a \<open>nil\<close> pointer panics there.
\<close>

definition device_identity ::
  "session \<Rightarrow> Voucher \<Rightarrow> failure + string \<times> string \<times> string" where
  "device_identity sessionState ov =
     (let (serial, model, _) = getDeviceInfo sessionState ov in
      case (case sessionState of
              SessionDeviceSelfInfo (Inr None) \<Rightarrow>
                Inl (Panic ''runtime error: invalid memory address or nil pointer dereference'')
            | SessionDeviceSelfInfo (Inr (Some devInfo)) \<Rightarrow>
                Inr (SerialNumber devInfo, DeviceInfo devInfo)
            | _ \<Rightarrow> Inr (serial, model)) of
        Inl f \<Rightarrow> Inl f
      | Inr (serial, model) \<Rightarrow>
          Inr (if serial = [] then hex (Header_GUID ov) else serial,
               if model = [] then Header_DeviceInfo ov else model,
               hex (Header_GUID ov)))"

text \<open>
  Lines 94 to 128: the owner to sign over to. In dynamic mode line 120 is
  \<open>nextOwner = ownerKey.(crypto.PublicKey)\<close>, where \<open>ownerKey\<close> is the \<open>*OwnerKeyResult\<close>
  that \<open>GetOwnerKey\<close> returned and \<open>crypto.PublicKey\<close> is the empty interface. The line
  reads neither the \<open>PublicKey\<close> nor the \<open>DIDURL\<close> field, and \<open>ownerKey\<close> goes out of
  scope at the end of the branch. An assertion to the empty interface yields its operand
  unchanged, so the value put in \<open>nextOwner\<close> is the \<open>*OwnerKeyResult\<close> itself. (The
  operand here has a pointer type, not an interface type, which a Go compiler does not
  accept in an assertion; no reading of the line yields the key.)
\<close>

definition next_owner ::
  "services \<Rightarrow> world \<Rightarrow> VoucherConfig \<Rightarrow> string \<Rightarrow> string
    \<Rightarrow> (failure + owner_value option) \<times> call list" where
  "next_owner sv w config serial model =
     (if OwnerSignover_Mode config = ''static'' then
        (if OwnerSignover_StaticPublicKey config \<noteq> [] then
           (case parseStaticPublicKey w (OwnerSignover_StaticPublicKey config) of
              Inl e \<Rightarrow> (Inl (Err (''failed to parse static public key: '' @ e)), [])
            | Inr key \<Rightarrow> (Inr (Some (KeyValue key)), []))
         else (Inr None, []))
      else if OwnerSignover_Mode config = ''dynamic'' then
        (if OwnerSignover_ExternalCommand config \<noteq> [] then
           (case GetOwnerKey (Execute sv) w serial model of
              Inl (Panic p) \<Rightarrow> (Inl (Panic p), [CallGetOwnerKey serial model])
            | Inl (Err e) \<Rightarrow>
                (Inl (Err (''failed to get dynamic owner key: '' @ e)),
                 [CallGetOwnerKey serial model])
            | Inr ownerKey \<Rightarrow>
                (Inr (Some (ResultValue ownerKey)), [CallGetOwnerKey serial model]))
         else
           (Inl (Err ''dynamic mode enabled but no external command configured''), []))
      else (Inr None, []))"

text \<open>\<open>fmt.Sprintf("%T", nextOwner)\<close> for the values the type switch does not handle.\<close>

definition type_name :: "owner_value \<Rightarrow> string" where
  "type_name v =
     (case v of
        KeyValue (ECDSAPublicKey _ _ _) \<Rightarrow> ''*ecdsa.PublicKey''
      | KeyValue (RSAPublicKey _ _) \<Rightarrow> ''*rsa.PublicKey''
      | KeyValue (OtherPublicKey t _) \<Rightarrow> t
      | CertChainValue _ \<Rightarrow> ''[]*x509.Certificate''
      | ResultValue _ \<Rightarrow> ''*main.OwnerKeyResult'')"

text \<open>
  Lines 130 to 184: signing through the signing service when a signing mode is
  configured, else a direct extension when there is an owner, by the type switch on the
  owner's concrete type. The voucher returned is the one to continue with: the caller's
  voucher is replaced only on the lines after a successful \<open>SignVoucher\<close> or
  \<open>ExtendVoucher\<close>.
\<close>

definition sign_or_extend ::
  "services \<Rightarrow> VoucherConfig \<Rightarrow> session \<Rightarrow> Voucher \<Rightarrow> owner_value option \<Rightarrow> string
    \<Rightarrow> string \<Rightarrow> (failure + Voucher) \<times> call list \<times> string list" where
  "sign_or_extend sv config sessionState ov nextOwner serial model =
     (if VoucherSigning_Mode config \<noteq> [] then
        (let (extraData, cs, ws) =
               (case GetOVEExtraData sv of
                  None \<Rightarrow> ([], [], [])
                | Some get \<Rightarrow>
                    (case get serial model of
                       Inl e \<Rightarrow>
                         ([], [CallGetOVEExtraData serial model],
                          [''Failed to get OVEExtra data: '' @ e])
                     | Inr d \<Rightarrow> (d, [CallGetOVEExtraData serial model], [])));
             cs = cs @ [CallSetSessionState sessionState,
                        CallSignVoucher ov nextOwner serial model extraData]
         in case SignVoucher sv ov nextOwner serial model extraData of
              Inl e \<Rightarrow> (Inl (Err (''voucher signing failed: '' @ e)), cs, ws)
            | Inr signedVoucher \<Rightarrow> (Inr signedVoucher, cs, ws))
      else
        (case nextOwner of
           None \<Rightarrow> (Inr ov, [], [])
         | Some key \<Rightarrow>
             let extend =
                   (case ExtendVoucher sv ov key of
                      Inl e \<Rightarrow>
                        (Inl (Err (''failed to extend voucher to owner: '' @ e)),
                         [CallExtendVoucher ov key], [])
                    | Inr extended \<Rightarrow> (Inr extended, [CallExtendVoucher ov key], []))
             in (case key of
                   KeyValue (RSAPublicKey _ _) \<Rightarrow> extend
                 | KeyValue (ECDSAPublicKey _ _ _) \<Rightarrow> extend
                 | CertChainValue _ \<Rightarrow> extend
                 | _ \<Rightarrow>
                     (Inl (Err (''unsupported owner key type: '' @ type_name key)),
                      [], []))))"

text \<open>
  Lines 186 to 199: the upload, whose failure ends the run, and the save to disk, whose
  failure is printed and nothing more.
\<close>

definition upload_step ::
  "services \<Rightarrow> VoucherConfig \<Rightarrow> string \<Rightarrow> string \<Rightarrow> string \<Rightarrow> Voucher
    \<Rightarrow> string option \<times> call list" where
  "upload_step sv config serial model guidStr ov =
     (if VoucherUpload_Enabled config
      then (UploadVoucher sv serial model guidStr ov,
            [CallUploadVoucher serial model guidStr ov])
      else (None, []))"

definition disk_step ::
  "services \<Rightarrow> VoucherConfig \<Rightarrow> Voucher \<Rightarrow> string \<Rightarrow> call list \<times> string list" where
  "disk_step sv config ov serial =
     (if SaveToDisk_Directory config \<noteq> [] then
        (case SaveVoucherToDisk sv ov serial of
           Some e \<Rightarrow>
             ([CallSaveVoucherToDisk ov serial], [''Failed to save voucher to disk: '' @ e])
         | None \<Rightarrow> ([CallSaveVoucherToDisk ov serial], []))
      else ([], []))"

definition BeforeVoucherPersist ::
  "services \<Rightarrow> world \<Rightarrow> VoucherConfig \<Rightarrow> session \<Rightarrow> Voucher \<Rightarrow> run" where
  "BeforeVoucherPersist sv w config sessionState ov =
     (case device_identity sessionState ov of
        Inl f \<Rightarrow> \<lparr>outcome = Inl f, voucher = ov, calls = [], warnings = []\<rparr>
      | Inr (serial, model, guidStr) \<Rightarrow>
     (case next_owner sv w config serial model of
        (Inl f, cs1) \<Rightarrow> \<lparr>outcome = Inl f, voucher = ov, calls = cs1, warnings = []\<rparr>
      | (Inr nextOwner, cs1) \<Rightarrow>
     (case sign_or_extend sv config sessionState ov nextOwner serial model of
        (Inl f, cs2, ws2) \<Rightarrow>
          \<lparr>outcome = Inl f, voucher = ov, calls = cs1 @ cs2, warnings = ws2\<rparr>
      | (Inr ov', cs2, ws2) \<Rightarrow>
     (case upload_step sv config serial model guidStr ov' of
        (Some e, cs3) \<Rightarrow>
          \<lparr>outcome = Inl (Err (''voucher upload failed: '' @ e)), voucher = ov',
           calls = cs1 @ cs2 @ cs3, warnings = ws2\<rparr>
      | (None, cs3) \<Rightarrow>
     (case disk_step sv config ov' serial of
        (cs4, ws4) \<Rightarrow>
          \<lparr>outcome = Inr (PersistToDB config), voucher = ov',
           calls = cs1 @ cs2 @ cs3 @ cs4, warnings = ws2 @ ws4\<rparr>)))))"

text \<open>
  The owners a run signed or extended the voucher to, in order: the owner argument of
  each \<open>SignVoucher\<close> that had one and of each \<open>ExtendVoucher\<close>.
\<close>

fun signover_targets :: "call list \<Rightarrow> owner_value list" where
  "signover_targets [] = []"
| "signover_targets (CallSignVoucher _ (Some v) _ _ _ # cs) = v # signover_targets cs"
| "signover_targets (CallExtendVoucher _ v # cs) = v # signover_targets cs"
| "signover_targets (_ # cs) = signover_targets cs"

text \<open>The upload calls of a run and the disk-save calls of a run.\<close>

fun uploads :: "call list \<Rightarrow> call list" where
  "uploads [] = []"
| "uploads (CallUploadVoucher s m g v # cs) = CallUploadVoucher s m g v # uploads cs"
| "uploads (_ # cs) = uploads cs"

fun disk_saves :: "call list \<Rightarrow> call list" where
  "disk_saves [] = []"
| "disk_saves (CallSaveVoucherToDisk v s # cs) = CallSaveVoucherToDisk v s # disk_saves cs"
| "disk_saves (_ # cs) = disk_saves cs"

section \<open>Concrete surroundings for evaluating the definitions\<close>

text \<open>
  A world in which the network is down, the PEM text \<open>PEM(owner)\<close> holds the PKIX
  encoding \<open>DER(owner)\<close> of one ECDSA key, and the random generator yields fixed
  coordinates.
\<close>

definition owner_key :: pubkey where
  "owner_key = ECDSAPublicKey P256 5 6"

definition offline_world :: world where
  "offline_world =
     \<lparr>GenerateECKey = (\<lambda>c. Inr (case c of P256 \<Rightarrow> (11, 22) | P384 \<Rightarrow> (33, 44))),
      GenerateRSAKey = (\<lambda>bits. Inr (3233, 17)),
      MarshalPKIXPublicKey =
        (\<lambda>k. if k = owner_key then Inr ''DER(owner)'' else Inl ''x509: unsupported key''),
      ParsePKIXPublicKey =
        (\<lambda>b. if b = ''DER(owner)'' then Inr owner_key else Inl ''asn1: syntax error''),
      ParseCertificatePublicKey = (\<lambda>b. Inl ''x509: malformed certificate''),
      ParsePKCS1PublicKey = (\<lambda>b. Inl ''x509: failed to parse public key''),
      pem_Decode =
        (\<lambda>s. if s = ''PEM(owner)'' then Some (''PUBLIC KEY'', ''DER(owner)'') else None),
      NewRequest = (\<lambda>url. None),
      Do = (\<lambda>url. DoFailed ''dial tcp: connection refused''),
      ParseDocument = (\<lambda>body. Inl ''unexpected end of JSON input''),
      ReadExampleJSON = (\<lambda>name. None),
      now_resolve = 5000,
      now_refresh = 5001\<rparr>"

text \<open>
  Collaborators that all succeed: the authority answers with the given response, signing
  and extension mark the voucher's contents, upload and disk-save return no error.
\<close>

definition working_services :: "OwnerKeyResponse \<Rightarrow> services" where
  "working_services response =
     \<lparr>Execute = (\<lambda>variables. Reply response),
      GetOVEExtraData = None,
      SignVoucher =
        (\<lambda>ov nextOwner serial model extra. Inr (ov\<lparr>Contents := Contents ov @ ''+signed''\<rparr>)),
      ExtendVoucher = (\<lambda>ov key. Inr (ov\<lparr>Contents := Contents ov @ ''+extended''\<rparr>)),
      UploadVoucher = (\<lambda>serial model guid ov. None),
      SaveVoucherToDisk = (\<lambda>ov serial. None)\<rparr>"

definition pem_response :: OwnerKeyResponse where
  "pem_response = \<lparr>OwnerKeyPEM = ''PEM(owner)'', OwnerDID = [], Error = []\<rparr>"

definition did_response :: OwnerKeyResponse where
  "did_response = \<lparr>OwnerKeyPEM = [], OwnerDID = ''did:web:example.com:owner'', Error = []\<rparr>"

definition device_voucher :: Voucher where
  "device_voucher =
     \<lparr>Header_GUID = [0x01, 0xab], Header_DeviceInfo = ''gadget'', Contents = ''ov''\<rparr>"

definition dynamic_config :: VoucherConfig where
  "dynamic_config =
     \<lparr>OwnerSignover_Mode = ''dynamic'', OwnerSignover_StaticPublicKey = [],
      OwnerSignover_ExternalCommand = ''owner-key.sh'', VoucherSigning_Mode = ''internal'',
      VoucherUpload_Enabled = True, SaveToDisk_Directory = ''vouchers'',
      PersistToDB = True\<rparr>"

definition static_config :: VoucherConfig where
  "static_config =
     \<lparr>OwnerSignover_Mode = ''static'', OwnerSignover_StaticPublicKey = [],
      OwnerSignover_ExternalCommand = [], VoucherSigning_Mode = ''internal'',
      VoucherUpload_Enabled = True, SaveToDisk_Directory = ''vouchers'',
      PersistToDB = False\<rparr>"

definition cache_config :: DIDCache where
  "cache_config =
     \<lparr>Enabled = True, MaxAge = 3000, RefreshInterval = 1000, FailureBackoff = 500,
      PurgeUnused = 9000\<rparr>"

definition cached_owner :: DIDCacheEntry where
  "cached_owner =
     \<lparr>DIDURI = ''did:web:example.com:owner'', PublicKey = ''DER(owner)'',
      DIDURL = ''https://example.com/vouchers/owner'', Timestamp = 1000,
      LastRefreshAttempt = 1000, LastRefreshError = [], LastUsed = 1200\<rparr>"

text \<open>
  A world in which the server answers 200 with a document whose \<open>verificationMethod\<close>
  array is \<open>[null]\<close>.
\<close>

definition null_method_world :: world where
  "null_method_world =
     offline_world
       \<lparr>Do := (\<lambda>url. Response 200 (Inr ''document'')),
        ParseDocument :=
          (\<lambda>body. Inr \<lparr>ID = ''did:web:example.com:owner'', VerificationMethods = [None]\<rparr>)\<rparr>"

text \<open>The same entry with its stored key cut short, as a partial write would leave it.\<close>

definition truncated_owner :: DIDCacheEntry where
  "truncated_owner = cached_owner\<lparr>PublicKey := ''DER(ow''\<rparr>"

section \<open>Auxiliary facts\<close>

subsection \<open>The resolver\<close>

lemma parseECJWK_ignores_coordinates:
  "parseECJWK w (jwkData(''x'' := vx, ''y'' := vy)) = parseECJWK w jwkData"
  by (simp add: parseECJWK_def string_field_def)

lemma parseRSAJWK_ignores_input:
  "parseRSAJWK w jwkData = parseRSAJWK w jwkData'"
  by (simp add: parseRSAJWK_def)

lemma refresh_failure:
  "HasPrefix didURI ''did:web:'' \<Longrightarrow> fetch_document w didURI = Inl (Err msg) \<Longrightarrow>
   refreshFromNetwork w s didURI c = fetch_failed s didURI (now_refresh w) msg c"
  by (simp add: refreshFromNetwork_def fetchDIDWeb_def)

lemma resolver_disabled:
  "\<not> Enabled config \<Longrightarrow>
   ResolveDIDKey w config sessionState didURI c = (Inl (Err ''DID cache is disabled''), c)"
  by (simp add: ResolveDIDKey_def)

lemma offline_fetch_fails:
  "fetch_document offline_world ''did:web:example.com:owner'' =
     Inl (Err ''failed to fetch DID document: dial tcp: connection refused'')"
  by (simp add: fetch_document_def offline_world_def TrimPrefix_def HasPrefix_def)

text \<open>
  A refresh can also end in a panic instead of an error: with a \<open>nil\<close> first verification
  method in the document fetched, \<open>fetchDIDWeb\<close> panics in \<open>extractPublicKey\<close>, records
  nothing, and the panic unwinds \<open>resolveDIDWebCached\<close> after the read and the touch of
  the entry; the cached key is not served.
\<close>

lemma null_method_fetch_panics:
  "fetch_document null_method_world ''did:web:example.com:owner'' =
     Inl (Panic ''runtime error: invalid memory address or nil pointer dereference'')"
  by (simp add: fetch_document_def null_method_world_def offline_world_def TrimPrefix_def
        HasPrefix_def extractPublicKey_def)

lemma null_first_method_panics:
  "resolveDIDWebCached null_method_world cache_config Database ''did:web:example.com:owner''
     \<lparr>rows = [''did:web:example.com:owner'' \<mapsto> cached_owner], ops = []\<rparr> =
     (Inl (Panic ''runtime error: invalid memory address or nil pointer dereference''),
      \<lparr>rows = [''did:web:example.com:owner'' \<mapsto> cached_owner\<lparr>LastUsed := 5000\<rparr>],
       ops = [OpGet ''did:web:example.com:owner'',
              OpTouchLastUsed ''did:web:example.com:owner'' 5000]\<rparr>)"
proof -
  have n: "now_resolve null_method_world = 5000"
    by (simp add: null_method_world_def offline_world_def)
  have st: "shouldRefresh cache_config cached_owner 5000"
    by (simp add: shouldRefresh_def cache_config_def cached_owner_def
          Sub_def minDuration_def maxDuration_def)
  have r: "refreshFromNetwork null_method_world Database ''did:web:example.com:owner'' c' =
      (Inl (Panic ''runtime error: invalid memory address or nil pointer dereference''), c')"
    for c'
    by (simp add: refreshFromNetwork_def HasPrefix_def fetchDIDWeb_def
          null_method_fetch_panics)
  show ?thesis
    unfolding resolveDIDWebCached_def Let_def
    by (simp add: n st r getFromCache_def store_get_def updateLastUsed_def
          store_touch_last_used_def)
qed

lemma cached_owner_is_stale:
  "shouldRefresh cache_config cached_owner (now_resolve offline_world)"
  by (simp add: shouldRefresh_def cache_config_def cached_owner_def offline_world_def
        Sub_def minDuration_def maxDuration_def)

lemma truncated_owner_is_stale:
  "shouldRefresh cache_config truncated_owner (now_resolve offline_world)"
  by (simp add: shouldRefresh_def cache_config_def cached_owner_def truncated_owner_def
        offline_world_def Sub_def minDuration_def maxDuration_def)

lemma truncated_owner_does_not_decode:
  "deserializePublicKey offline_world (PublicKey truncated_owner) = Inl ''asn1: syntax error''"
  by (simp add: deserializePublicKey_def truncated_owner_def offline_world_def)

lemma cached_owner_decodes:
  "deserializePublicKey offline_world (PublicKey cached_owner) = Inr owner_key"
  by (simp add: deserializePublicKey_def cached_owner_def offline_world_def)

text \<open>
  With configured durations strictly between the least and the greatest duration, the
  saturation of \<open>Sub\<close> does not show: the decision is the policy on the exact differences.
\<close>

lemma shouldRefresh_exact_differences:
  assumes "minDuration \<le> MaxAge config" "MaxAge config < maxDuration"
    and "minDuration < RefreshInterval config" "RefreshInterval config \<le> maxDuration"
    and "minDuration < FailureBackoff config" "FailureBackoff config \<le> maxDuration"
  shows "shouldRefresh config cached now =
     refresh_policy (now - Timestamp cached) (now - LastRefreshAttempt cached)
       (MaxAge config) (RefreshInterval config) (FailureBackoff config)"
  using assms unfolding shouldRefresh_def refresh_policy_def Sub_def by auto

subsection \<open>The runs of the callback, by the step that ends them\<close>

lemma run_cases [case_names identity_failed owner_failed sign_failed upload_failed completed]:
  obtains
    f where "device_identity ss ov = Inl f"
      and "BeforeVoucherPersist sv w config ss ov =
             \<lparr>outcome = Inl f, voucher = ov, calls = [], warnings = []\<rparr>"
  | serial model guidStr f cs1 where "device_identity ss ov = Inr (serial, model, guidStr)"
      and "next_owner sv w config serial model = (Inl f, cs1)"
      and "BeforeVoucherPersist sv w config ss ov =
             \<lparr>outcome = Inl f, voucher = ov, calls = cs1, warnings = []\<rparr>"
  | serial model guidStr nextOwner cs1 f cs2 ws2
    where "device_identity ss ov = Inr (serial, model, guidStr)"
      and "next_owner sv w config serial model = (Inr nextOwner, cs1)"
      and "sign_or_extend sv config ss ov nextOwner serial model = (Inl f, cs2, ws2)"
      and "BeforeVoucherPersist sv w config ss ov =
             \<lparr>outcome = Inl f, voucher = ov, calls = cs1 @ cs2, warnings = ws2\<rparr>"
  | serial model guidStr nextOwner cs1 ov' cs2 ws2 e cs3
    where "device_identity ss ov = Inr (serial, model, guidStr)"
      and "next_owner sv w config serial model = (Inr nextOwner, cs1)"
      and "sign_or_extend sv config ss ov nextOwner serial model = (Inr ov', cs2, ws2)"
      and "upload_step sv config serial model guidStr ov' = (Some e, cs3)"
      and "BeforeVoucherPersist sv w config ss ov =
             \<lparr>outcome = Inl (Err (''voucher upload failed: '' @ e)), voucher = ov',
              calls = cs1 @ cs2 @ cs3, warnings = ws2\<rparr>"
  | serial model guidStr nextOwner cs1 ov' cs2 ws2 cs3 cs4 ws4
    where "device_identity ss ov = Inr (serial, model, guidStr)"
      and "next_owner sv w config serial model = (Inr nextOwner, cs1)"
      and "sign_or_extend sv config ss ov nextOwner serial model = (Inr ov', cs2, ws2)"
      and "upload_step sv config serial model guidStr ov' = (None, cs3)"
      and "disk_step sv config ov' serial = (cs4, ws4)"
      and "BeforeVoucherPersist sv w config ss ov =
             \<lparr>outcome = Inr (PersistToDB config), voucher = ov',
              calls = cs1 @ cs2 @ cs3 @ cs4, warnings = ws2 @ ws4\<rparr>"
proof (cases "device_identity ss ov")
  case (Inl f)
  then show ?thesis using that(1) by (simp add: BeforeVoucherPersist_def)
next
  case (Inr idn)
  obtain serial model guidStr where idn: "device_identity ss ov = Inr (serial, model, guidStr)"
    using Inr by (cases idn) auto
  obtain r1 cs1 where n: "next_owner sv w config serial model = (r1, cs1)"
    by (cases "next_owner sv w config serial model") auto
  show ?thesis
  proof (cases r1)
    case (Inl f)
    then show ?thesis using that(2) idn n by (simp add: BeforeVoucherPersist_def)
  next
    case (Inr nextOwner)
    note n = n [unfolded Inr]
    obtain r2 cs2 ws2 where
      s: "sign_or_extend sv config ss ov nextOwner serial model = (r2, cs2, ws2)"
      by (cases "sign_or_extend sv config ss ov nextOwner serial model") auto
    show ?thesis
    proof (cases r2)
      case (Inl f)
      then show ?thesis using that(3) idn n s by (simp add: BeforeVoucherPersist_def)
    next
      case (Inr ov')
      note s = s [unfolded Inr]
      obtain u cs3 where u: "upload_step sv config serial model guidStr ov' = (u, cs3)"
        by (cases "upload_step sv config serial model guidStr ov'") auto
      obtain cs4 ws4 where d: "disk_step sv config ov' serial = (cs4, ws4)"
        by (cases "disk_step sv config ov' serial") auto
      show ?thesis
      proof (cases u)
        case None
        then show ?thesis using that(5) idn n s u d by (simp add: BeforeVoucherPersist_def)
      next
        case (Some e)
        then show ?thesis using that(4) idn n s u by (simp add: BeforeVoucherPersist_def)
      qed
    qed
  qed
qed

subsection \<open>The calls of each step\<close>

lemma signover_targets_append:
  "signover_targets (xs @ ys) = signover_targets xs @ signover_targets ys"
  by (induction xs rule: signover_targets.induct) simp_all

lemma uploads_append: "uploads (xs @ ys) = uploads xs @ uploads ys"
  by (induction xs rule: uploads.induct) simp_all

lemma disk_saves_append: "disk_saves (xs @ ys) = disk_saves xs @ disk_saves ys"
  by (induction xs rule: disk_saves.induct) simp_all

lemma next_owner_static_none:
  "OwnerSignover_Mode config = ''static'' \<Longrightarrow> OwnerSignover_StaticPublicKey config = [] \<Longrightarrow>
   next_owner sv w config serial model = (Inr None, [])"
  by (simp add: next_owner_def)

lemma next_owner_calls:
  "next_owner sv w config serial model = (r, cs) \<Longrightarrow>
   cs = [] \<or> cs = [CallGetOwnerKey serial model]"
  by (auto simp: next_owner_def split: if_splits sum.splits failure.splits)

lemma sign_or_extend_calls:
  "sign_or_extend sv config ss ov nextOwner serial model = (r, cs, ws) \<Longrightarrow>
   disk_saves cs = [] \<and> uploads cs = []"
  by (auto simp: sign_or_extend_def Let_def
      split: if_splits option.splits sum.splits owner_value.splits pubkey.splits)

lemma sign_or_extend_no_owner:
  "sign_or_extend sv config ss ov None serial model = (r, cs, ws) \<Longrightarrow>
   signover_targets cs = []"
  by (auto simp: sign_or_extend_def Let_def split: if_splits option.splits sum.splits)

lemma sign_or_extend_result:
  "sign_or_extend sv config ss ov nextOwner serial model = (Inr ov', cs, ws) \<Longrightarrow>
   ov' = ov
   \<or> (\<exists>extraData. SignVoucher sv ov nextOwner serial model extraData = Inr ov')
   \<or> (\<exists>key. ExtendVoucher sv ov key = Inr ov')"
  by (auto simp: sign_or_extend_def Let_def
      split: if_splits option.splits sum.splits owner_value.splits pubkey.splits)

lemma upload_step_calls:
  "upload_step sv config serial model guidStr ov = (u, cs) \<Longrightarrow>
   disk_saves cs = [] \<and> signover_targets cs = []
   \<and> (uploads cs = [] \<or> uploads cs = [CallUploadVoucher serial model guidStr ov])"
  by (auto simp: upload_step_def split: if_splits)

lemma upload_step_failed:
  "upload_step sv config serial model guidStr ov = (Some e, cs) \<Longrightarrow>
   uploads cs = [CallUploadVoucher serial model guidStr ov]"
  by (auto simp: upload_step_def split: if_splits)

lemma disk_step_calls:
  "disk_step sv config ov serial = (cs, ws) \<Longrightarrow>
   signover_targets cs = [] \<and> uploads cs = []
   \<and> (cs = [] \<or> cs = [CallSaveVoucherToDisk ov serial])"
  by (auto simp: disk_step_def split: if_splits option.splits)

lemma disk_step_failed:
  "disk_step sv config ov serial = ([CallSaveVoucherToDisk v s], ws) \<Longrightarrow>
   SaveVoucherToDisk sv v s = Some e \<Longrightarrow>
   ws = [''Failed to save voucher to disk: '' @ e]"
  by (auto simp: disk_step_def split: if_splits option.splits)

lemma stages_ignore_disk_service:
  "next_owner (sv\<lparr>SaveVoucherToDisk := save\<rparr>) w config serial model =
     next_owner sv w config serial model"
  "sign_or_extend (sv\<lparr>SaveVoucherToDisk := save\<rparr>) config ss ov nextOwner serial model =
     sign_or_extend sv config ss ov nextOwner serial model"
  "upload_step (sv\<lparr>SaveVoucherToDisk := save\<rparr>) config serial model guidStr ov =
     upload_step sv config serial model guidStr ov"
  by (simp_all add: next_owner_def sign_or_extend_def upload_step_def Let_def
      split: option.split owner_value.split pubkey.split)

lemma run_ignores_disk_service:
  "outcome (BeforeVoucherPersist (sv\<lparr>SaveVoucherToDisk := save\<rparr>) w config ss ov) =
     outcome (BeforeVoucherPersist sv w config ss ov)
   \<and> voucher (BeforeVoucherPersist (sv\<lparr>SaveVoucherToDisk := save\<rparr>) w config ss ov) =
     voucher (BeforeVoucherPersist sv w config ss ov)"
  unfolding BeforeVoucherPersist_def stages_ignore_disk_service
  by (simp split: sum.split prod.split option.split)

lemma disk_saves_member:
  "CallSaveVoucherToDisk v s \<in> set cs \<Longrightarrow> CallSaveVoucherToDisk v s \<in> set (disk_saves cs)"
  by (induction cs rule: disk_saves.induct) auto

section \<open>Properties\<close>

text \<open>
  C1. Claimed: for a JWK with \<open>kty = "EC"\<close> and \<open>crv\<close> one of P-256 and P-384, key
  extraction returns the key whose coordinates are the JWK's \<open>x\<close> and \<open>y\<close> (and for
  \<open>kty = "RSA"\<close> the key of its modulus and exponent), never fresh key material. The code
  does otherwise: \<open>parseJWK\<close> never reads \<open>x\<close> and \<open>y\<close>, so replacing them by anything
  leaves its result as it is, and the key it returns is the one the random generator
  produced. In the offline world, whose generator yields \<open>(11, 22)\<close> on P-256, the JWK with
  coordinates \<open>AQ\<close> and \<open>Ag\<close> (the numbers 1 and 2) and the JWK with coordinates \<open>Aw\<close> and
  \<open>BA\<close> (3 and 4) both give the key \<open>(11, 22)\<close>; an RSA JWK gives the generated pair.
\<close>

theorem parseJWK_returns_generated_key:
  "parseJWK w (jwkData(''x'' := vx, ''y'' := vy)) = parseJWK w jwkData
   \<and> parseJWK offline_world
         [''kty'' \<mapsto> JString ''EC'', ''crv'' \<mapsto> JString ''P-256'',
          ''x'' \<mapsto> JString ''AQ'', ''y'' \<mapsto> JString ''Ag'']
       = Inr (ECDSAPublicKey P256 11 22)
   \<and> parseJWK offline_world
         [''kty'' \<mapsto> JString ''EC'', ''crv'' \<mapsto> JString ''P-256'',
          ''x'' \<mapsto> JString ''Aw'', ''y'' \<mapsto> JString ''BA'']
       = Inr (ECDSAPublicKey P256 11 22)
   \<and> parseJWK offline_world
         [''kty'' \<mapsto> JString ''RSA'', ''n'' \<mapsto> JString ''AQAB'', ''e'' \<mapsto> JString ''AQAB'']
       = Inr (RSAPublicKey 3233 17)"
proof -
  have "parseJWK w (jwkData(''x'' := vx, ''y'' := vy)) = parseJWK w jwkData"
    unfolding parseJWK_def parseECJWK_ignores_coordinates
      parseRSAJWK_ignores_input [of w "jwkData(''x'' := vx, ''y'' := vy)" jwkData]
    by (simp add: string_field_def)
  moreover have "parseJWK offline_world
         [''kty'' \<mapsto> JString ''EC'', ''crv'' \<mapsto> JString ''P-256'',
          ''x'' \<mapsto> JString ''AQ'', ''y'' \<mapsto> JString ''Ag'']
       = Inr (ECDSAPublicKey P256 11 22)"
    by (simp add: parseJWK_def parseECJWK_def string_field_def offline_world_def)
  moreover have "parseJWK offline_world
         [''kty'' \<mapsto> JString ''EC'', ''crv'' \<mapsto> JString ''P-256'',
          ''x'' \<mapsto> JString ''Aw'', ''y'' \<mapsto> JString ''BA'']
       = Inr (ECDSAPublicKey P256 11 22)"
    by (simp add: parseJWK_def parseECJWK_def string_field_def offline_world_def)
  moreover have "parseJWK offline_world
         [''kty'' \<mapsto> JString ''RSA'', ''n'' \<mapsto> JString ''AQAB'', ''e'' \<mapsto> JString ''AQAB'']
       = Inr (RSAPublicKey 3233 17)"
    by (simp add: parseJWK_def parseRSAJWK_def string_field_def offline_world_def)
  ultimately show ?thesis by blast
qed

text \<open>
  C2. Claimed: for an authority response with an identifier URI, \<open>GetOwnerKey\<close> delegates
  to the resolver with caching disabled and returns the resolver's key and URL, and
  disabling caching does not by itself make the resolution fail. The code does otherwise:
  \<open>handleDIDResponse\<close> builds its resolver with \<open>Enabled: false\<close>, and \<open>ResolveDIDKey\<close>
  returns ``DID cache is disabled'' before it looks at the URI, so \<open>handleDIDResponse\<close>
  fails for every world and every URI, and so does \<open>GetOwnerKey\<close> on a response that
  names \<open>did:web:example.com:owner\<close>.
\<close>

theorem handleDIDResponse_always_fails:
  "handleDIDResponse w didURI =
     Inl (Err (''failed to resolve DID '' @ didURI @ '': DID cache is disabled''))
   \<and> GetOwnerKey (Execute (working_services did_response)) offline_world ''SN-1'' ''gadget'' =
     Inl (Err ''failed to resolve DID did:web:example.com:owner: DID cache is disabled'')"
proof -
  have h: "handleDIDResponse w' u =
     Inl (Err (''failed to resolve DID '' @ u @ '': DID cache is disabled''))" for w' u
    by (simp add: handleDIDResponse_def resolver_disabled)
  show ?thesis
    by (simp add: h GetOwnerKey_def working_services_def did_response_def)
qed

text \<open>
  C3. Claimed: in dynamic owner-signover mode with default signing, when the owner key
  service resolves an owner (a public key and a delivery URL), the callback signs the
  voucher to that public key and to no other value, and the upload is routed to that URL.
  The code does otherwise. The value it hands to \<open>SignVoucher\<close> as the next owner is the
  \<open>OwnerKeyResult\<close> itself, not its \<open>PublicKey\<close> field; \<open>UploadVoucher\<close> is called with
  the serial number, the model, the GUID and the voucher, and the result's \<open>DIDURL\<close> is
  read nowhere. With the authority answering with the PEM of one key: the owner signed to
  is the result record, the upload has those four arguments, and with the signing mode
  cleared the type switch of the direct extension rejects the value as
  \<open>*main.OwnerKeyResult\<close>.
\<close>

theorem dynamic_owner_result_passed_whole:
  "signover_targets (calls (BeforeVoucherPersist (working_services pem_response)
       offline_world dynamic_config SessionNil device_voucher)) =
     [ResultValue \<lparr>ResultPublicKey = owner_key, ResultDIDURL = []\<rparr>]
   \<and> uploads (calls (BeforeVoucherPersist (working_services pem_response)
       offline_world dynamic_config SessionNil device_voucher)) =
     [CallUploadVoucher ''01ab'' ''gadget'' ''01ab''
        (device_voucher\<lparr>Contents := ''ov+signed''\<rparr>)]
   \<and> outcome (BeforeVoucherPersist (working_services pem_response) offline_world
       (dynamic_config\<lparr>VoucherSigning_Mode := []\<rparr>) SessionNil device_voucher) =
     Inl (Err ''unsupported owner key type: *main.OwnerKeyResult'')"
proof -
  have i: "device_identity SessionNil device_voucher = Inr (''01ab'', ''gadget'', ''01ab'')"
    by (simp add: device_identity_def getDeviceInfo_def device_voucher_def hexdigit_def)
  have g: "GetOwnerKey (Execute (working_services pem_response)) offline_world
       ''01ab'' ''gadget'' = Inr \<lparr>ResultPublicKey = owner_key, ResultDIDURL = []\<rparr>"
    by (simp add: GetOwnerKey_def working_services_def pem_response_def
          parsePublicKeyFromPEM_def parsePKIXPublicKey_def offline_world_def)
  have n: "next_owner (working_services pem_response) offline_world cfg ''01ab'' ''gadget'' =
      (Inr (Some (ResultValue \<lparr>ResultPublicKey = owner_key, ResultDIDURL = []\<rparr>)),
       [CallGetOwnerKey ''01ab'' ''gadget''])"
    if "OwnerSignover_Mode cfg = ''dynamic''" "OwnerSignover_ExternalCommand cfg = ''owner-key.sh''"
    for cfg
    using that by (simp add: next_owner_def g)
  have d: "OwnerSignover_Mode dynamic_config = ''dynamic''"
    "OwnerSignover_ExternalCommand dynamic_config = ''owner-key.sh''"
    "VoucherSigning_Mode dynamic_config = ''internal''"
    "VoucherUpload_Enabled dynamic_config" "SaveToDisk_Directory dynamic_config = ''vouchers''"
    by (simp_all add: dynamic_config_def)
  have sv: "GetOVEExtraData (working_services pem_response) = None"
    "SignVoucher (working_services pem_response) =
       (\<lambda>ov nextOwner serial model extra. Inr (ov\<lparr>Contents := Contents ov @ ''+signed''\<rparr>))"
    "UploadVoucher (working_services pem_response) = (\<lambda>serial model guid ov. None)"
    "SaveVoucherToDisk (working_services pem_response) = (\<lambda>ov serial. None)"
    by (simp_all add: working_services_def)
  have c: "Contents device_voucher = ''ov''"
    by (simp add: device_voucher_def)
  show ?thesis
    using d
    by (simp add: BeforeVoucherPersist_def i n sign_or_extend_def upload_step_def
          disk_step_def sv c type_name_def)
qed


text \<open>
  C5, as amended. For a \<open>did:web\<close> resolution whose cache entry exists and is due for a
  refresh, and whose refresh returns an error with a message (every exit of the fetch
  that returns an error; a fetch that panics is not meant): the failure is recorded in the
  entry's \<open>last_refresh_attempt\<close> and \<open>last_refresh_error\<close>, \<open>last_used\<close> is the time of
  the call, and \<open>resolved_at\<close>, the stored key and the URL stay; the operations performed
  are the read, the touch and the recording of the error. When the stored bytes
  deserialize to a key, the call succeeds with that key and the entry's delivery URL; when
  they do not, the call fails with the deserialization error. When reading the cache
  yields no entry, the error the fetch returns is the error returned.
\<close>

theorem failed_refresh_serves_cached_entry:
  "(rows c didURI = Some cached \<and> HasPrefix didURI ''did:web:''
      \<and> shouldRefresh config cached (now_resolve w)
      \<and> fetch_document w didURI = Inl (Err msg)
      \<and> deserializePublicKey w (PublicKey cached) = Inr key
    \<longrightarrow> resolveDIDWebCached w config Database didURI c =
         (Inr (key, DIDURL cached),
          c\<lparr>rows := (rows c)(didURI \<mapsto>
                     cached\<lparr>LastUsed := now_resolve w, LastRefreshAttempt := now_refresh w,
                            LastRefreshError := msg\<rparr>),
            ops := ops c @ [OpGet didURI, OpTouchLastUsed didURI (now_resolve w),
                            OpRecordError didURI (now_refresh w) msg]\<rparr>))
   \<and> (rows c didURI = Some cached \<and> HasPrefix didURI ''did:web:''
      \<and> shouldRefresh config cached (now_resolve w)
      \<and> fetch_document w didURI = Inl (Err msg)
      \<and> deserializePublicKey w (PublicKey cached) = Inl e
    \<longrightarrow> resolveDIDWebCached w config Database didURI c =
         (Inl (Err (''failed to deserialize cached public key: '' @ e)),
          c\<lparr>rows := (rows c)(didURI \<mapsto>
                     cached\<lparr>LastUsed := now_resolve w, LastRefreshAttempt := now_refresh w,
                            LastRefreshError := msg\<rparr>),
            ops := ops c @ [OpGet didURI, OpTouchLastUsed didURI (now_resolve w),
                            OpRecordError didURI (now_refresh w) msg]\<rparr>))
   \<and> (fst (getFromCache sessionState didURI c) = Inl err \<and> HasPrefix didURI ''did:web:''
      \<and> fetch_document w didURI = Inl (Err msg)
    \<longrightarrow> fst (resolveDIDWebCached w config sessionState didURI c) = Inl (Err msg))"
proof (intro conjI impI)
  assume a: "rows c didURI = Some cached \<and> HasPrefix didURI ''did:web:''
      \<and> shouldRefresh config cached (now_resolve w)
      \<and> fetch_document w didURI = Inl (Err msg)
      \<and> deserializePublicKey w (PublicKey cached) = Inr key"
  then have r: "refreshFromNetwork w Database didURI c' =
      fetch_failed Database didURI (now_refresh w) msg c'" for c'
    by (simp add: refresh_failure)
  from a show "resolveDIDWebCached w config Database didURI c =
         (Inr (key, DIDURL cached),
          c\<lparr>rows := (rows c)(didURI \<mapsto>
                     cached\<lparr>LastUsed := now_resolve w, LastRefreshAttempt := now_refresh w,
                            LastRefreshError := msg\<rparr>),
            ops := ops c @ [OpGet didURI, OpTouchLastUsed didURI (now_resolve w),
                            OpRecordError didURI (now_refresh w) msg]\<rparr>)"
    unfolding resolveDIDWebCached_def Let_def
    by (simp add: getFromCache_def store_get_def updateLastUsed_def
          store_touch_last_used_def r fetch_failed_def updateCacheError_def
          store_record_error_def return_cached_def)
next
  assume a: "rows c didURI = Some cached \<and> HasPrefix didURI ''did:web:''
      \<and> shouldRefresh config cached (now_resolve w)
      \<and> fetch_document w didURI = Inl (Err msg)
      \<and> deserializePublicKey w (PublicKey cached) = Inl e"
  then have r: "refreshFromNetwork w Database didURI c' =
      fetch_failed Database didURI (now_refresh w) msg c'" for c'
    by (simp add: refresh_failure)
  from a show "resolveDIDWebCached w config Database didURI c =
         (Inl (Err (''failed to deserialize cached public key: '' @ e)),
          c\<lparr>rows := (rows c)(didURI \<mapsto>
                     cached\<lparr>LastUsed := now_resolve w, LastRefreshAttempt := now_refresh w,
                            LastRefreshError := msg\<rparr>),
            ops := ops c @ [OpGet didURI, OpTouchLastUsed didURI (now_resolve w),
                            OpRecordError didURI (now_refresh w) msg]\<rparr>)"
    unfolding resolveDIDWebCached_def Let_def
    by (simp add: getFromCache_def store_get_def updateLastUsed_def
          store_touch_last_used_def r fetch_failed_def updateCacheError_def
          store_record_error_def return_cached_def)
next
  assume a: "fst (getFromCache sessionState didURI c) = Inl err
      \<and> HasPrefix didURI ''did:web:'' \<and> fetch_document w didURI = Inl (Err msg)"
  then have r: "refreshFromNetwork w sessionState didURI c' =
      fetch_failed sessionState didURI (now_refresh w) msg c'" for c'
    by (simp add: refresh_failure)
  from a show "fst (resolveDIDWebCached w config sessionState didURI c) = Inl (Err msg)"
    unfolding resolveDIDWebCached_def Let_def
    by (cases "getFromCache sessionState didURI c") (simp add: r fetch_failed_def)
qed

theorem failed_refresh_serves_cached_entry_witness:
  "resolveDIDWebCached offline_world cache_config Database ''did:web:example.com:owner''
     \<lparr>rows = [''did:web:example.com:owner'' \<mapsto> cached_owner], ops = []\<rparr> =
     (Inr (owner_key, ''https://example.com/vouchers/owner''),
      \<lparr>rows = [''did:web:example.com:owner'' \<mapsto>
                cached_owner\<lparr>LastUsed := 5000, LastRefreshAttempt := 5001,
                  LastRefreshError :=
                    ''failed to fetch DID document: dial tcp: connection refused''\<rparr>],
       ops = [OpGet ''did:web:example.com:owner'',
              OpTouchLastUsed ''did:web:example.com:owner'' 5000,
              OpRecordError ''did:web:example.com:owner'' 5001
                ''failed to fetch DID document: dial tcp: connection refused'']\<rparr>)
   \<and> snd (resolveDIDWebCached offline_world cache_config Database
            ''did:web:example.com:owner''
            \<lparr>rows = [''did:web:example.com:owner'' \<mapsto> truncated_owner], ops = []\<rparr>) =
      \<lparr>rows = [''did:web:example.com:owner'' \<mapsto>
                truncated_owner\<lparr>LastUsed := 5000, LastRefreshAttempt := 5001,
                  LastRefreshError :=
                    ''failed to fetch DID document: dial tcp: connection refused''\<rparr>],
       ops = [OpGet ''did:web:example.com:owner'',
              OpTouchLastUsed ''did:web:example.com:owner'' 5000,
              OpRecordError ''did:web:example.com:owner'' 5001
                ''failed to fetch DID document: dial tcp: connection refused'']\<rparr>
   \<and> fst (resolveDIDWebCached offline_world cache_config Database
            ''did:web:example.com:owner'' \<lparr>rows = Map.empty, ops = []\<rparr>) =
     Inl (Err ''failed to fetch DID document: dial tcp: connection refused'')"
proof -
  have p: "HasPrefix ''did:web:example.com:owner'' ''did:web:''"
    by (simp add: HasPrefix_def)
  have g: "fst (getFromCache Database ''did:web:example.com:owner''
                 \<lparr>rows = Map.empty, ops = []\<rparr>) = Inl (Err ''no rows in result set'')"
    by (simp add: getFromCache_def store_get_def)
  have u: "DIDURL cached_owner = ''https://example.com/vouchers/owner''"
    by (simp add: cached_owner_def)
  have n: "now_resolve offline_world = 5000" "now_refresh offline_world = 5001"
    by (simp_all add: offline_world_def)
  show ?thesis
    using failed_refresh_serves_cached_entry
      [of "\<lparr>rows = [''did:web:example.com:owner'' \<mapsto> cached_owner], ops = []\<rparr>"
          "''did:web:example.com:owner''" cached_owner cache_config offline_world
          "''failed to fetch DID document: dial tcp: connection refused''" owner_key
          "''asn1: syntax error''" Database "Err ''no rows in result set''"]
      failed_refresh_serves_cached_entry
      [of "\<lparr>rows = [''did:web:example.com:owner'' \<mapsto> truncated_owner], ops = []\<rparr>"
          "''did:web:example.com:owner''" truncated_owner cache_config offline_world
          "''failed to fetch DID document: dial tcp: connection refused''" owner_key
          "''asn1: syntax error''" Database "Err ''no rows in result set''"]
      failed_refresh_serves_cached_entry
      [of "\<lparr>rows = Map.empty, ops = []\<rparr>"
          "''did:web:example.com:owner''" cached_owner cache_config offline_world
          "''failed to fetch DID document: dial tcp: connection refused''" owner_key
          "''asn1: syntax error''" Database "Err ''no rows in result set''"]
      p g u n offline_fetch_fails cached_owner_is_stale cached_owner_decodes
      truncated_owner_is_stale truncated_owner_does_not_decode
    by simp
qed

text \<open>
  C5 as claimed, that every such call succeeds with the cached key, fails where the
  stored bytes do not deserialize: with the network down and the stale entry
  \<open>truncated_owner\<close> in the cache, the entry exists, the refresh is due and fails, and the
  call returns the deserialization error.
\<close>

theorem stale_entry_not_always_served:
  "rows \<lparr>rows = [''did:web:example.com:owner'' \<mapsto> truncated_owner], ops = []\<rparr>
       ''did:web:example.com:owner'' = Some truncated_owner
   \<and> shouldRefresh cache_config truncated_owner (now_resolve offline_world)
   \<and> fetch_document offline_world ''did:web:example.com:owner'' =
       Inl (Err ''failed to fetch DID document: dial tcp: connection refused'')
   \<and> fst (resolveDIDWebCached offline_world cache_config Database
            ''did:web:example.com:owner''
            \<lparr>rows = [''did:web:example.com:owner'' \<mapsto> truncated_owner], ops = []\<rparr>) =
       Inl (Err ''failed to deserialize cached public key: asn1: syntax error'')"
proof -
  have p: "HasPrefix ''did:web:example.com:owner'' ''did:web:''"
    by (simp add: HasPrefix_def)
  have r: "refreshFromNetwork offline_world Database ''did:web:example.com:owner'' c' =
      fetch_failed Database ''did:web:example.com:owner'' (now_refresh offline_world)
        ''failed to fetch DID document: dial tcp: connection refused'' c'" for c'
    using p offline_fetch_fails by (rule refresh_failure)
  have d: "return_cached offline_world truncated_owner =
      Inl (Err ''failed to deserialize cached public key: asn1: syntax error'')"
    by (simp add: return_cached_def deserializePublicKey_def truncated_owner_def
          offline_world_def)
  have "fst (resolveDIDWebCached offline_world cache_config Database
            ''did:web:example.com:owner''
            \<lparr>rows = [''did:web:example.com:owner'' \<mapsto> truncated_owner], ops = []\<rparr>) =
       Inl (Err ''failed to deserialize cached public key: asn1: syntax error'')"
    unfolding resolveDIDWebCached_def Let_def
    by (simp add: getFromCache_def store_get_def truncated_owner_is_stale r fetch_failed_def d)
  then show ?thesis
    using truncated_owner_is_stale offline_fetch_fails by simp
qed

text \<open>
  C6. Claimed: for a URI whose method is neither \<open>did:key\<close> nor \<open>did:web\<close>,
  \<open>ResolveDIDKey\<close> returns an error naming the method and never crashes, also when the
  URI has no colon. The code does otherwise on a URI without a colon: it takes element 1
  of \<open>strings.Split(didURI, ":")\<close>, which has one element, and panics. With an enabled
  resolver, \<open>not-a-did\<close> panics, while \<open>did:eth:0xabc\<close> gets the error naming \<open>eth\<close>.
\<close>

theorem ResolveDIDKey_panics_without_colon:
  "fst (ResolveDIDKey w (config\<lparr>Enabled := True\<rparr>) sessionState ''not-a-did'' c) =
     Inl (Panic ''runtime error: index out of range [1] with length 1'')
   \<and> fst (ResolveDIDKey w (config\<lparr>Enabled := True\<rparr>) sessionState ''did:eth:0xabc'' c) =
     Inl (Err ''unsupported DID method: eth'')"
  by (simp add: ResolveDIDKey_def HasPrefix_def index_def decimal_def hexdigit_def)

text \<open>
  C7. A resolution of a URI with the prefix \<open>did:key:\<close> through \<open>ResolveDIDKey\<close> performs
  no operation on the cache store: the table and the list of operations performed are
  afterwards what they were, whatever the configuration and the session state.
\<close>

theorem did_key_leaves_cache_alone:
  "HasPrefix didURI ''did:key:'' \<Longrightarrow>
   snd (ResolveDIDKey w config sessionState didURI c) = c"
  by (simp add: ResolveDIDKey_def resolveDIDKeyDirect_def extractPublicKeyFromDIDKey_def)

theorem did_key_leaves_cache_alone_witness:
  "HasPrefix ''did:key:z6MkhaXgBZDvotDkL5257faiztiGiC2QtKLGpbnnEGta2do7'' ''did:key:''
   \<and> snd (ResolveDIDKey offline_world cache_config Database
            ''did:key:z6MkhaXgBZDvotDkL5257faiztiGiC2QtKLGpbnnEGta2do7''
            \<lparr>rows = [''did:web:example.com:owner'' \<mapsto> cached_owner], ops = []\<rparr>) =
     \<lparr>rows = [''did:web:example.com:owner'' \<mapsto> cached_owner], ops = []\<rparr>"
proof -
  have p: "HasPrefix ''did:key:z6MkhaXgBZDvotDkL5257faiztiGiC2QtKLGpbnnEGta2do7'' ''did:key:''"
    by (simp add: HasPrefix_def)
  show ?thesis
    using p did_key_leaves_cache_alone [OF p, of offline_world cache_config Database
      "\<lparr>rows = [''did:web:example.com:owner'' \<mapsto> cached_owner], ops = []\<rparr>"]
    by simp
qed

text \<open>
  C8. Whenever the callback returns without an error, the boolean it returns is the
  configured \<open>PersistToDB\<close>, whatever the signover, the signing, the upload and the
  disk-save did. In static mode with an empty configured key there is no signover: no
  call of \<open>SignVoucher\<close> carries an owner, and \<open>ExtendVoucher\<close> is not called.
\<close>

theorem persist_flag_is_the_result:
  "(outcome (BeforeVoucherPersist sv w config ss ov) = Inr b \<longrightarrow> b = PersistToDB config)
   \<and> (OwnerSignover_Mode config = ''static'' \<and> OwnerSignover_StaticPublicKey config = []
      \<longrightarrow> signover_targets (calls (BeforeVoucherPersist sv w config ss ov)) = [])"
proof (cases rule: run_cases [of ss ov sv w config])
  case (identity_failed f)
  then show ?thesis by simp
next
  case (owner_failed serial model guidStr f cs1)
  then show ?thesis by (auto simp: next_owner_static_none)
next
  case (sign_failed serial model guidStr nextOwner cs1 f cs2 ws2)
  then show ?thesis
    by (auto simp: next_owner_static_none signover_targets_append
        dest: sign_or_extend_no_owner)
next
  case (upload_failed serial model guidStr nextOwner cs1 ov' cs2 ws2 e cs3)
  then show ?thesis
    by (auto simp: next_owner_static_none signover_targets_append
        dest: sign_or_extend_no_owner upload_step_calls)
next
  case (completed serial model guidStr nextOwner cs1 ov' cs2 ws2 cs3 cs4 ws4)
  then show ?thesis
    by (auto simp: next_owner_static_none signover_targets_append
        dest: sign_or_extend_no_owner upload_step_calls disk_step_calls)
qed

theorem persist_flag_is_the_result_witness:
  "outcome (BeforeVoucherPersist (working_services pem_response) offline_world static_config
              SessionNil device_voucher) = Inr False
   \<and> False = PersistToDB static_config
   \<and> OwnerSignover_Mode static_config = ''static''
   \<and> OwnerSignover_StaticPublicKey static_config = []
   \<and> signover_targets (calls (BeforeVoucherPersist (working_services pem_response)
        offline_world static_config SessionNil device_voucher)) = []"
proof -
  have o: "outcome (BeforeVoucherPersist (working_services pem_response) offline_world
             static_config SessionNil device_voucher) = Inr False"
    by (simp add: BeforeVoucherPersist_def device_identity_def getDeviceInfo_def
          next_owner_def sign_or_extend_def upload_step_def disk_step_def
          working_services_def static_config_def device_voucher_def)
  have m: "OwnerSignover_Mode static_config = ''static''"
    "OwnerSignover_StaticPublicKey static_config = []"
    by (simp_all add: static_config_def)
  show ?thesis
    using o m persist_flag_is_the_result [of "working_services pem_response" offline_world
      static_config SessionNil device_voucher False]
    by simp
qed

text \<open>
  C9. When a run calls the disk service and the service fails, the run does not end
  there: it returns \<open>PersistToDB\<close> with no error, the failure is among the warnings
  printed, and what it returns and the voucher it leaves are those of the same run with a
  disk service that succeeds.
\<close>

theorem disk_save_failure_is_not_fatal:
  assumes "CallSaveVoucherToDisk v s \<in> set (calls (BeforeVoucherPersist sv w config ss ov))"
    and "SaveVoucherToDisk sv v s = Some e"
  shows "outcome (BeforeVoucherPersist sv w config ss ov) = Inr (PersistToDB config)
   \<and> (''Failed to save voucher to disk: '' @ e)
        \<in> set (warnings (BeforeVoucherPersist sv w config ss ov))
   \<and> outcome (BeforeVoucherPersist (sv\<lparr>SaveVoucherToDisk := (\<lambda>v s. None)\<rparr>) w config ss ov) =
       outcome (BeforeVoucherPersist sv w config ss ov)
   \<and> voucher (BeforeVoucherPersist (sv\<lparr>SaveVoucherToDisk := (\<lambda>v s. None)\<rparr>) w config ss ov) =
       voucher (BeforeVoucherPersist sv w config ss ov)"
proof -
  have saved: "CallSaveVoucherToDisk v s
      \<in> set (disk_saves (calls (BeforeVoucherPersist sv w config ss ov)))"
    using assms(1) by (rule disk_saves_member)
  have "outcome (BeforeVoucherPersist sv w config ss ov) = Inr (PersistToDB config)
   \<and> (''Failed to save voucher to disk: '' @ e)
        \<in> set (warnings (BeforeVoucherPersist sv w config ss ov))"
  proof (cases rule: run_cases [of ss ov sv w config])
    case (identity_failed f)
    then show ?thesis using saved by simp
  next
    case (owner_failed serial model guidStr f cs1)
    then show ?thesis using saved next_owner_calls [OF owner_failed(2)] by auto
  next
    case (sign_failed serial model guidStr nextOwner cs1 f cs2 ws2)
    then show ?thesis
      using saved next_owner_calls [OF sign_failed(2)] sign_or_extend_calls [OF sign_failed(3)]
      by (auto simp: disk_saves_append)
  next
    case (upload_failed serial model guidStr nextOwner cs1 ov' cs2 ws2 e' cs3)
    then show ?thesis
      using saved next_owner_calls [OF upload_failed(2)]
        sign_or_extend_calls [OF upload_failed(3)] upload_step_calls [OF upload_failed(4)]
      by (auto simp: disk_saves_append)
  next
    case (completed serial model guidStr nextOwner cs1 ov' cs2 ws2 cs3 cs4 ws4)
    have "disk_saves (calls (BeforeVoucherPersist sv w config ss ov)) = disk_saves cs4"
      using completed next_owner_calls [OF completed(2)]
        sign_or_extend_calls [OF completed(3)] upload_step_calls [OF completed(4)]
      by (auto simp: disk_saves_append)
    then have "CallSaveVoucherToDisk v s \<in> set (disk_saves cs4)"
      using saved by simp
    then have cs4: "cs4 = [CallSaveVoucherToDisk v s]"
      using disk_step_calls [OF completed(5)] by auto
    have "ws4 = [''Failed to save voucher to disk: '' @ e]"
      using completed(5) assms(2) unfolding cs4 by (rule disk_step_failed)
    then show ?thesis using completed by simp
  qed
  then show ?thesis using run_ignores_disk_service [where sv = sv and save = "\<lambda>v s. None"] by simp
qed

theorem disk_save_failure_is_not_fatal_witness:
  "CallSaveVoucherToDisk (device_voucher\<lparr>Contents := ''ov+signed''\<rparr>) ''01ab''
     \<in> set (calls (BeforeVoucherPersist
          ((working_services pem_response)\<lparr>SaveVoucherToDisk := (\<lambda>v s. Some ''disk full'')\<rparr>)
          offline_world static_config SessionNil device_voucher))
   \<and> outcome (BeforeVoucherPersist
          ((working_services pem_response)\<lparr>SaveVoucherToDisk := (\<lambda>v s. Some ''disk full'')\<rparr>)
          offline_world static_config SessionNil device_voucher) =
       Inr (PersistToDB static_config)
   \<and> ''Failed to save voucher to disk: disk full''
     \<in> set (warnings (BeforeVoucherPersist
          ((working_services pem_response)\<lparr>SaveVoucherToDisk := (\<lambda>v s. Some ''disk full'')\<rparr>)
          offline_world static_config SessionNil device_voucher))"
proof -
  have c: "CallSaveVoucherToDisk (device_voucher\<lparr>Contents := ''ov+signed''\<rparr>) ''01ab''
     \<in> set (calls (BeforeVoucherPersist
          ((working_services pem_response)\<lparr>SaveVoucherToDisk := (\<lambda>v s. Some ''disk full'')\<rparr>)
          offline_world static_config SessionNil device_voucher))"
    by (simp add: BeforeVoucherPersist_def device_identity_def getDeviceInfo_def
          next_owner_def sign_or_extend_def upload_step_def disk_step_def
          working_services_def static_config_def device_voucher_def hexdigit_def)
  have f: "SaveVoucherToDisk
      ((working_services pem_response)\<lparr>SaveVoucherToDisk := (\<lambda>v s. Some ''disk full'')\<rparr>)
      (device_voucher\<lparr>Contents := ''ov+signed''\<rparr>) ''01ab'' = Some ''disk full''"
    by simp
  show ?thesis
    using c disk_save_failure_is_not_fatal [OF c f] by simp
qed

text \<open>
  C10. When the callback ends with a failure in the derivation of the device identity, in
  the resolution of the owner key, or in the signing or extension step, the voucher behind
  the caller's pointer is the one passed in. In every run the voucher afterwards is the
  one passed in, or the result of a successful \<open>SignVoucher\<close> on it, or the result of a
  successful \<open>ExtendVoucher\<close> on it.
\<close>

theorem voucher_replaced_only_after_success:
  "(device_identity ss ov = Inl f
      \<longrightarrow> outcome (BeforeVoucherPersist sv w config ss ov) = Inl f
        \<and> voucher (BeforeVoucherPersist sv w config ss ov) = ov)
   \<and> (device_identity ss ov = Inr (serial, model, guidStr)
       \<and> fst (next_owner sv w config serial model) = Inl f
      \<longrightarrow> outcome (BeforeVoucherPersist sv w config ss ov) = Inl f
        \<and> voucher (BeforeVoucherPersist sv w config ss ov) = ov)
   \<and> (device_identity ss ov = Inr (serial, model, guidStr)
       \<and> fst (next_owner sv w config serial model) = Inr nextOwner
       \<and> fst (sign_or_extend sv config ss ov nextOwner serial model) = Inl f
      \<longrightarrow> outcome (BeforeVoucherPersist sv w config ss ov) = Inl f
        \<and> voucher (BeforeVoucherPersist sv w config ss ov) = ov)
   \<and> (voucher (BeforeVoucherPersist sv w config ss ov) = ov
      \<or> (\<exists>owner s m extraData.
            SignVoucher sv ov owner s m extraData =
              Inr (voucher (BeforeVoucherPersist sv w config ss ov)))
      \<or> (\<exists>key. ExtendVoucher sv ov key =
              Inr (voucher (BeforeVoucherPersist sv w config ss ov))))"
proof (cases rule: run_cases [of ss ov sv w config])
  case (identity_failed f')
  then show ?thesis by auto
next
  case (owner_failed serial' model' guidStr' f' cs1)
  then show ?thesis by auto
next
  case (sign_failed serial' model' guidStr' nextOwner' cs1 f' cs2 ws2)
  then show ?thesis by auto
next
  case (upload_failed serial' model' guidStr' nextOwner' cs1 ov' cs2 ws2 e cs3)
  then show ?thesis
    using sign_or_extend_result [OF upload_failed(3)] by auto
next
  case (completed serial' model' guidStr' nextOwner' cs1 ov' cs2 ws2 cs3 cs4 ws4)
  then show ?thesis
    using sign_or_extend_result [OF completed(3)] by auto
qed

theorem voucher_replaced_only_after_success_witness:
  "outcome (BeforeVoucherPersist
       ((working_services pem_response)
          \<lparr>SignVoucher := (\<lambda>ov nextOwner serial model extra. Inl ''no manufacturer key'')\<rparr>)
       offline_world static_config SessionNil device_voucher) =
     Inl (Err ''voucher signing failed: no manufacturer key'')
   \<and> voucher (BeforeVoucherPersist
       ((working_services pem_response)
          \<lparr>SignVoucher := (\<lambda>ov nextOwner serial model extra. Inl ''no manufacturer key'')\<rparr>)
       offline_world static_config SessionNil device_voucher) = device_voucher
   \<and> outcome (BeforeVoucherPersist (working_services pem_response) offline_world static_config
       (SessionDeviceSelfInfo (Inr None)) device_voucher) =
     Inl (Panic ''runtime error: invalid memory address or nil pointer dereference'')
   \<and> voucher (BeforeVoucherPersist (working_services pem_response) offline_world static_config
       (SessionDeviceSelfInfo (Inr None)) device_voucher) = device_voucher
   \<and> outcome (BeforeVoucherPersist (working_services pem_response) offline_world
       (dynamic_config\<lparr>OwnerSignover_ExternalCommand := []\<rparr>) SessionNil device_voucher) =
     Inl (Err ''dynamic mode enabled but no external command configured'')
   \<and> voucher (BeforeVoucherPersist (working_services pem_response) offline_world
       (dynamic_config\<lparr>OwnerSignover_ExternalCommand := []\<rparr>) SessionNil device_voucher) =
     device_voucher"
proof -
  have i: "device_identity SessionNil device_voucher = Inr (''01ab'', ''gadget'', ''01ab'')"
    by (simp add: device_identity_def getDeviceInfo_def device_voucher_def hexdigit_def)
  have i': "device_identity (SessionDeviceSelfInfo (Inr None)) device_voucher =
      Inl (Panic ''runtime error: invalid memory address or nil pointer dereference'')"
    by (simp add: device_identity_def getDeviceInfo_def)
  have n: "fst (next_owner
       ((working_services pem_response)
          \<lparr>SignVoucher := (\<lambda>ov nextOwner serial model extra. Inl ''no manufacturer key'')\<rparr>)
       offline_world static_config ''01ab'' ''gadget'') = Inr None"
    by (simp add: next_owner_def static_config_def)
  have n': "fst (next_owner (working_services pem_response) offline_world
       (dynamic_config\<lparr>OwnerSignover_ExternalCommand := []\<rparr>) ''01ab'' ''gadget'') =
     Inl (Err ''dynamic mode enabled but no external command configured'')"
    by (simp add: next_owner_def dynamic_config_def)
  have s: "fst (sign_or_extend
       ((working_services pem_response)
          \<lparr>SignVoucher := (\<lambda>ov nextOwner serial model extra. Inl ''no manufacturer key'')\<rparr>)
       static_config SessionNil device_voucher None ''01ab'' ''gadget'') =
     Inl (Err ''voucher signing failed: no manufacturer key'')"
    by (simp add: sign_or_extend_def static_config_def working_services_def)
  show ?thesis
    using i i' n n' s
      voucher_replaced_only_after_success
        [of SessionNil device_voucher "Err ''voucher signing failed: no manufacturer key''"
            "(working_services pem_response)
               \<lparr>SignVoucher := (\<lambda>ov nextOwner serial model extra. Inl ''no manufacturer key'')\<rparr>"
            offline_world static_config "''01ab''" "''gadget''" "''01ab''" None]
      voucher_replaced_only_after_success
        [of "SessionDeviceSelfInfo (Inr None)" device_voucher
            "Panic ''runtime error: invalid memory address or nil pointer dereference''"
            "working_services pem_response" offline_world static_config]
      voucher_replaced_only_after_success
        [of SessionNil device_voucher
            "Err ''dynamic mode enabled but no external command configured''"
            "working_services pem_response" offline_world
            "dynamic_config\<lparr>OwnerSignover_ExternalCommand := []\<rparr>"
            "''01ab''" "''gadget''" "''01ab''"]
    by simp
qed

end
